theory Spec2Isabelle
  imports Complex_Main "HOL-Library.AList"
begin

section \<open>Numbers, columns and tables\<close>

text \<open>
  The scorers of \<^verbatim>\<open>utils/data_processor.py\<close> and the similarity ranker of
  \<^verbatim>\<open>utils/recommender.py\<close> work on pandas tables. The embedding keeps what the code
  reads and writes:
  \<^item> a float is an exact rational, or one of the three special values that pandas
    arithmetic produces instead of raising: \<open>PInf\<close>, \<open>NInf\<close> and \<open>NaN\<close>. Division by
    zero therefore follows pandas (\<open>x / 0\<close> is infinite, \<open>0 / 0\<close> is \<open>NaN\<close>). Rounding
    error and overflow are left to the section on floating-point arithmetic, which gives
    the scorers that round over binary64; the sign of zero is not modelled;
  \<^item> a column is a float column, a string column or a timestamp column (nanoseconds
    since the epoch); a missing string is \<open>None\<close>, a missing timestamp (\<open>NaT\<close>) is \<open>None\<close>;
  \<^item> a table has \<open>nrows\<close> rows, labelled \<open>0, 1, \<dots>\<close> as \<^verbatim>\<open>pd.read_csv\<close> and
    \<^verbatim>\<open>pd.DataFrame(dict)\<close> label them, and an ordered list of named columns. A
    series built without an index, as \<^verbatim>\<open>pd.Series([0.5] * len(data))\<close>, carries the
    same labels, so it lines up with the rows of the table;
  \<^item> an exception is a value \<open>Inl e\<close>.
\<close>

datatype error = KeyError string | TypeError | AttributeError | ValueError | IndexError

definition bind_err :: "error + 'a \<Rightarrow> ('a \<Rightarrow> error + 'b) \<Rightarrow> error + 'b" where
  "bind_err m f = (case m of Inl e \<Rightarrow> Inl e | Inr x \<Rightarrow> f x)"

datatype fval = Fin rat | PInf | NInf | NaN

fun fneg :: "fval \<Rightarrow> fval" where
  "fneg (Fin a) = Fin (- a)"
| "fneg PInf = NInf"
| "fneg NInf = PInf"
| "fneg NaN = NaN"

fun fadd :: "fval \<Rightarrow> fval \<Rightarrow> fval" where
  "fadd (Fin a) (Fin b) = Fin (a + b)"
| "fadd (Fin a) PInf = PInf"
| "fadd (Fin a) NInf = NInf"
| "fadd PInf (Fin b) = PInf"
| "fadd PInf PInf = PInf"
| "fadd NInf (Fin b) = NInf"
| "fadd NInf NInf = NInf"
| "fadd PInf NInf = NaN"
| "fadd NInf PInf = NaN"
| "fadd NaN y = NaN"
| "fadd x NaN = NaN"

definition fsub :: "fval \<Rightarrow> fval \<Rightarrow> fval" where
  "fsub x y = fadd x (fneg y)"

fun fmul :: "fval \<Rightarrow> fval \<Rightarrow> fval" where
  "fmul (Fin a) (Fin b) = Fin (a * b)"
| "fmul (Fin a) PInf = (if a = 0 then NaN else if 0 < a then PInf else NInf)"
| "fmul (Fin a) NInf = (if a = 0 then NaN else if 0 < a then NInf else PInf)"
| "fmul PInf (Fin b) = (if b = 0 then NaN else if 0 < b then PInf else NInf)"
| "fmul NInf (Fin b) = (if b = 0 then NaN else if 0 < b then NInf else PInf)"
| "fmul PInf PInf = PInf"
| "fmul NInf NInf = PInf"
| "fmul PInf NInf = NInf"
| "fmul NInf PInf = NInf"
| "fmul NaN y = NaN"
| "fmul x NaN = NaN"

fun fdiv :: "fval \<Rightarrow> fval \<Rightarrow> fval" where
  "fdiv (Fin a) (Fin b) =
     (if b = 0 then (if a = 0 then NaN else if 0 < a then PInf else NInf)
      else Fin (a / b))"
| "fdiv (Fin a) PInf = Fin 0"
| "fdiv (Fin a) NInf = Fin 0"
| "fdiv PInf (Fin b) = (if 0 \<le> b then PInf else NInf)"
| "fdiv NInf (Fin b) = (if 0 \<le> b then NInf else PInf)"
| "fdiv PInf PInf = NaN"
| "fdiv PInf NInf = NaN"
| "fdiv NInf PInf = NaN"
| "fdiv NInf NInf = NaN"
| "fdiv NaN y = NaN"
| "fdiv x NaN = NaN"

fun fabs :: "fval \<Rightarrow> fval" where
  "fabs (Fin a) = Fin \<bar>a\<bar>"
| "fabs PInf = PInf"
| "fabs NInf = PInf"
| "fabs NaN = NaN"

text \<open>\<open>fge x y\<close> is the comparison \<^verbatim>\<open>x >= y\<close>: false as soon as one side is \<open>NaN\<close>.\<close>

fun fge :: "fval \<Rightarrow> fval \<Rightarrow> bool" where
  "fge (Fin a) (Fin b) = (b \<le> a)"
| "fge PInf (Fin b) = True"
| "fge PInf PInf = True"
| "fge PInf NInf = True"
| "fge (Fin a) NInf = True"
| "fge NInf NInf = True"
| "fge (Fin a) PInf = False"
| "fge NInf (Fin b) = False"
| "fge NInf PInf = False"
| "fge NaN y = False"
| "fge x NaN = False"

definition flt :: "fval \<Rightarrow> fval \<Rightarrow> bool" where
  "flt x y = (x \<noteq> NaN \<and> y \<noteq> NaN \<and> \<not> fge x y)"

text \<open>
  \<^verbatim>\<open>Series.round(d)\<close> is numpy's rounding: scale by \<open>10 ^ d\<close>, round to the nearest
  integer with ties going to the even one, scale back.
\<close>

definition rint :: "rat \<Rightarrow> int" where
  "rint x =
     (let f = \<lfloor>x\<rfloor>; r = x - of_int f
      in if r < 1 / 2 then f else if 1 / 2 < r then f + 1
         else if even f then f else f + 1)"

fun fround :: "nat \<Rightarrow> fval \<Rightarrow> fval" where
  "fround d (Fin a) = Fin (of_int (rint (a * 10 ^ d)) / 10 ^ d)"
| "fround d PInf = PInf"
| "fround d NInf = NInf"
| "fround d NaN = NaN"

text \<open>\<^verbatim>\<open>Series.max()\<close> skips \<open>NaN\<close>; it is \<open>NaN\<close> when nothing is left.\<close>

definition fmax :: "fval \<Rightarrow> fval \<Rightarrow> fval" where
  "fmax x y = (if fge x y then x else y)"

definition series_max :: "fval list \<Rightarrow> fval" where
  "series_max xs =
     (case filter (\<lambda>x. x \<noteq> NaN) xs of [] \<Rightarrow> NaN | y # ys \<Rightarrow> foldl fmax y ys)"

datatype column =
    NumCol "fval list"
  | StrCol "string option list"
  | DateCol "int option list"

record dataframe =
  nrows :: nat
  cols :: "(string \<times> column) list"

fun col_len :: "column \<Rightarrow> nat" where
  "col_len (NumCol xs) = length xs"
| "col_len (StrCol xs) = length xs"
| "col_len (DateCol xs) = length xs"

text \<open>A table as pandas builds it: distinct column names, every column of full length.\<close>

definition wf_frame :: "dataframe \<Rightarrow> bool" where
  "wf_frame df =
     (distinct (map fst (cols df)) \<and> list_all (\<lambda>(k, c). col_len c = nrows df) (cols df))"

definition get_col :: "dataframe \<Rightarrow> string \<Rightarrow> column option" where
  "get_col df name = map_of (cols df) name"

definition has_col :: "dataframe \<Rightarrow> string \<Rightarrow> bool" where
  "has_col df name = (get_col df name \<noteq> None)"

text \<open>\<^verbatim>\<open>df[name]\<close> raises \<^verbatim>\<open>KeyError\<close> on a missing column.\<close>

definition lookup_col :: "dataframe \<Rightarrow> string \<Rightarrow> error + column" where
  "lookup_col df name =
     (case get_col df name of None \<Rightarrow> Inl (KeyError name) | Some c \<Rightarrow> Inr c)"

text \<open>
  \<^verbatim>\<open>df[name] = column\<close> replaces the column where it stands, or appends a new one.
\<close>

definition set_col :: "dataframe \<Rightarrow> string \<Rightarrow> column \<Rightarrow> dataframe" where
  "set_col df name c = df\<lparr>cols := AList.update name c (cols df)\<rparr>"

definition broadcast :: "dataframe \<Rightarrow> rat \<Rightarrow> fval list" where
  "broadcast df v = replicate (nrows df) (Fin v)"

text \<open>Arithmetic needs a float column; on strings and timestamps it raises.\<close>

definition num_values :: "column \<Rightarrow> error + fval list" where
  "num_values c = (case c of NumCol xs \<Rightarrow> Inr xs | _ \<Rightarrow> Inl TypeError)"

definition ns_per_day :: int where
  "ns_per_day = 86400000000000"

text \<open>\<^verbatim>\<open>(a - b).dt.days\<close>: whole days of a time difference, rounded down; \<open>NaN\<close> on \<open>NaT\<close>.\<close>

fun days_between :: "int option \<Rightarrow> int option \<Rightarrow> fval" where
  "days_between (Some a) (Some b) = Fin (of_int ((a - b) div ns_per_day))"
| "days_between _ _ = NaN"

text \<open>
  \<^verbatim>\<open>np.select(conditions, choices, default)\<close> row by row: the choice of the first
  condition that holds.
\<close>

fun select_row :: "(bool \<times> string) list \<Rightarrow> string \<Rightarrow> string" where
  "select_row [] d = d"
| "select_row ((c, v) # cs) d = (if c then v else select_row cs d)"

definition categorize :: "rat \<Rightarrow> rat \<Rightarrow> rat \<Rightarrow> fval \<Rightarrow> string" where
  "categorize hi mid lo x =
     select_row [(fge x (Fin hi), ''High''), (fge x (Fin mid), ''Medium''),
                 (fge x (Fin lo), ''Low'')] ''Very Low''"

definition category_column :: "rat \<Rightarrow> rat \<Rightarrow> rat \<Rightarrow> fval list \<Rightarrow> column" where
  "category_column hi mid lo xs = StrCol (map (\<lambda>x. Some (categorize hi mid lo x)) xs)"

section \<open>Member engagement\<close>

text \<open>
  \<^verbatim>\<open>calculate_member_engagement\<close>, lines 236 to 240: the days since the last
  interaction, from the clock \<open>now\<close>, or 30 for every row.
\<close>

definition days_since_interaction_step :: "int \<Rightarrow> dataframe \<Rightarrow> error + dataframe" where
  "days_since_interaction_step now data =
     (case get_col data ''last_interaction'' of
        Some (DateCol ts) \<Rightarrow>
          Inr (set_col data ''days_since_interaction''
                 (NumCol (map (\<lambda>t. days_between (Some now) t) ts)))
      | Some _ \<Rightarrow> Inl TypeError
      | None \<Rightarrow>
          Inr (set_col data ''days_since_interaction'' (NumCol (broadcast data 30))))"

text \<open>Lines 254 to 262: the two optional factors and their default.\<close>

definition attendance_score :: "dataframe \<Rightarrow> column" where
  "attendance_score data =
     (case get_col data ''attendance_rate'' of
        Some c \<Rightarrow> c
      | None \<Rightarrow> NumCol (broadcast data (1 / 2)))"

definition satisfaction_score :: "dataframe \<Rightarrow> error + fval list" where
  "satisfaction_score data =
     (case get_col data ''satisfaction_score'' of
        Some c \<Rightarrow> bind_err (num_values c) (\<lambda>xs. Inr (map (\<lambda>x. fdiv x (Fin 10)) xs))
      | None \<Rightarrow> Inr (broadcast data (1 / 2)))"

text \<open>Lines 265 and 268: both divide by the column's maximum, whatever it is.\<close>

definition recency_score :: "dataframe \<Rightarrow> error + fval list" where
  "recency_score data =
     bind_err (lookup_col data ''days_since_interaction'') (\<lambda>c.
     bind_err (num_values c) (\<lambda>ds.
       Inr (map (\<lambda>d. fsub (Fin 1) (fdiv d (series_max ds))) ds)))"

definition loyalty_score :: "dataframe \<Rightarrow> error + fval list" where
  "loyalty_score data =
     bind_err (lookup_col data ''membership_duration_days'') (\<lambda>c.
     bind_err (num_values c) (\<lambda>ms.
       Inr (map (\<lambda>m. fdiv m (series_max ms)) ms)))"

text \<open>Lines 271 to 276: the weighted sum, in the order the source adds it up.\<close>

definition weighted_sum :: "fval \<Rightarrow> fval \<Rightarrow> fval \<Rightarrow> fval \<Rightarrow> fval" where
  "weighted_sum a s r l =
     fadd (fadd (fadd (fmul (Fin (3 / 10)) a) (fmul (Fin (3 / 10)) s))
                (fmul (Fin (2 / 10)) r))
          (fmul (Fin (2 / 10)) l)"

definition combine_scores ::
  "fval list \<Rightarrow> fval list \<Rightarrow> fval list \<Rightarrow> fval list \<Rightarrow> fval list" where
  "combine_scores as ss rs ls =
     map (\<lambda>(a, s, r, l). weighted_sum a s r l) (zip as (zip ss (zip rs ls)))"

definition to_percent :: "fval \<Rightarrow> fval" where
  "to_percent x = fround 1 (fmul x (Fin 100))"

definition engagement_score_step :: "dataframe \<Rightarrow> error + dataframe" where
  "engagement_score_step data =
     bind_err (satisfaction_score data) (\<lambda>ss.
     bind_err (recency_score data) (\<lambda>rs.
     bind_err (loyalty_score data) (\<lambda>ls.
     bind_err (num_values (attendance_score data)) (\<lambda>as.
       let raw = combine_scores as ss rs ls;
           data1 = set_col data ''engagement_score'' (NumCol raw)
       in Inr (set_col data1 ''engagement_score'' (NumCol (map to_percent raw)))))))"

text \<open>Lines 281 to 288: the level, from the rounded score.\<close>

definition engagement_level_step :: "dataframe \<Rightarrow> error + dataframe" where
  "engagement_level_step data =
     bind_err (lookup_col data ''engagement_score'') (\<lambda>c.
     bind_err (num_values c) (\<lambda>xs.
       Inr (set_col data ''engagement_level'' (category_column 75 50 25 xs))))"

text \<open>
  The function: \<open>None\<close> for a missing or empty table (lines 231 and 232), otherwise the
  three steps on a copy of the table.
\<close>

definition member_engagement_body :: "int \<Rightarrow> dataframe \<Rightarrow> error + dataframe" where
  "member_engagement_body now data =
     bind_err (days_since_interaction_step now data) (\<lambda>data1.
     bind_err (engagement_score_step data1) engagement_level_step)"

definition calculate_member_engagement ::
  "int \<Rightarrow> dataframe option \<Rightarrow> error + dataframe option" where
  "calculate_member_engagement now membership_data =
     (case membership_data of
        None \<Rightarrow> Inr None
      | Some md \<Rightarrow>
          if nrows md = 0 then Inr None
          else map_sum id Some (member_engagement_body now md))"

section \<open>Partnership effectiveness\<close>

text \<open>\<^verbatim>\<open>end_date > today\<close>: false on \<open>NaT\<close>.\<close>

fun date_gt :: "int option \<Rightarrow> int \<Rightarrow> bool" where
  "date_gt (Some t) now = (now < t)"
| "date_gt None now = False"

text \<open>
  \<^verbatim>\<open>calculate_partnership_effectiveness\<close>, lines 307 to 313: the duration in days,
  counted up to \<open>now\<close> for a partnership that ends in the future. The difference of two
  float columns has no \<^verbatim>\<open>.dt\<close>; every other mix of column types cannot be subtracted.
\<close>

definition ongoing_duration ::
  "int \<Rightarrow> int option list \<Rightarrow> int option list \<Rightarrow> fval list \<Rightarrow> fval list" where
  "ongoing_duration now es ss ds =
     map (\<lambda>(e, s, d). if date_gt e now then days_between (Some now) s else d)
       (zip es (zip ss ds))"

definition partnership_duration_step :: "int \<Rightarrow> dataframe \<Rightarrow> error + dataframe" where
  "partnership_duration_step now data =
     (if has_col data ''start_date'' \<and> has_col data ''end_date'' then
        (case (get_col data ''end_date'', get_col data ''start_date'') of
           (Some (DateCol es), Some (DateCol ss)) \<Rightarrow>
             let ds = map (\<lambda>(e, s). days_between e s) (zip es ss);
                 data1 = set_col data ''partnership_duration'' (NumCol ds)
             in Inr (set_col data1 ''partnership_duration''
                       (NumCol (ongoing_duration now es ss ds)))
         | (Some (NumCol _), Some (NumCol _)) \<Rightarrow> Inl AttributeError
         | _ \<Rightarrow> Inl TypeError)
      else Inr data)"

text \<open>Lines 315 to 320: the return on investment, when there is a value to start from.\<close>

definition roi_step :: "dataframe \<Rightarrow> error + dataframe" where
  "roi_step data =
     (if has_col data ''value_contribution'' \<and> has_col data ''cost'' then
        bind_err (lookup_col data ''value_contribution'') (\<lambda>vc.
        bind_err (lookup_col data ''cost'') (\<lambda>cc.
        bind_err (num_values vc) (\<lambda>vs.
        bind_err (num_values cc) (\<lambda>cs.
          Inr (set_col data ''roi''
                 (NumCol (map (\<lambda>(v, c). fdiv (fsub v c) c) (zip vs cs))))))))
      else if has_col data ''value_contribution'' then
        bind_err (lookup_col data ''value_contribution'') (\<lambda>vc.
        bind_err (num_values vc) (\<lambda>vs.
          Inr (set_col data ''roi'' (NumCol (map (\<lambda>v. fdiv v (Fin 5000)) vs)))))
      else Inr data)"

text \<open>Lines 322 to 331: the score, from the ratings that are there.\<close>

definition effectiveness_score_step :: "dataframe \<Rightarrow> error + dataframe" where
  "effectiveness_score_step data =
     (if has_col data ''performance_rating'' \<and> has_col data ''alignment_score'' then
        bind_err (lookup_col data ''performance_rating'') (\<lambda>pc.
        bind_err (lookup_col data ''alignment_score'') (\<lambda>ac.
        bind_err (num_values pc) (\<lambda>ps.
        bind_err (num_values ac) (\<lambda>as.
          Inr (set_col data ''effectiveness_score''
                 (NumCol (map (\<lambda>(p, a). fdiv (fadd p a) (Fin 2)) (zip ps as))))))))
      else if has_col data ''performance_rating'' then
        bind_err (lookup_col data ''performance_rating'') (\<lambda>pc.
          Inr (set_col data ''effectiveness_score'' pc))
      else if has_col data ''alignment_score'' then
        bind_err (lookup_col data ''alignment_score'') (\<lambda>ac.
          Inr (set_col data ''effectiveness_score'' ac))
      else Inr (set_col data ''effectiveness_score'' (NumCol (broadcast data 5))))"

text \<open>Lines 333 to 340: the category, on the scale of the ratings.\<close>

definition effectiveness_category_step :: "dataframe \<Rightarrow> error + dataframe" where
  "effectiveness_category_step data =
     bind_err (lookup_col data ''effectiveness_score'') (\<lambda>c.
     bind_err (num_values c) (\<lambda>xs.
       Inr (set_col data ''effectiveness_category'' (category_column 8 6 4 xs))))"

definition partnership_effectiveness_body :: "int \<Rightarrow> dataframe \<Rightarrow> error + dataframe" where
  "partnership_effectiveness_body now data =
     bind_err (partnership_duration_step now data) (\<lambda>data1.
     bind_err (roi_step data1) (\<lambda>data2.
     bind_err (effectiveness_score_step data2) effectiveness_category_step))"

definition calculate_partnership_effectiveness ::
  "int \<Rightarrow> dataframe option \<Rightarrow> error + dataframe option" where
  "calculate_partnership_effectiveness now partnership_data =
     (case partnership_data of
        None \<Rightarrow> Inr None
      | Some pd \<Rightarrow>
          if nrows pd = 0 then Inr None
          else map_sum id Some (partnership_effectiveness_body now pd))"

section \<open>Program performance\<close>

text \<open>
  \<^verbatim>\<open>analyze_program_performance\<close>, lines 359 to 365: the two ratios, rounded to two
  decimals, when both of their columns are there.
\<close>

definition ratio_step ::
  "string \<Rightarrow> string \<Rightarrow> string \<Rightarrow> dataframe \<Rightarrow> error + dataframe" where
  "ratio_step den num target data =
     (if has_col data den \<and> has_col data num then
        bind_err (lookup_col data num) (\<lambda>nc.
        bind_err (lookup_col data den) (\<lambda>dc.
        bind_err (num_values nc) (\<lambda>ns.
        bind_err (num_values dc) (\<lambda>ds.
          Inr (set_col data target
                 (NumCol (map (\<lambda>(n, d). fround 2 (fdiv n d)) (zip ns ds))))))))
      else Inr data)"

definition enrollment_rate_step :: "dataframe \<Rightarrow> error + dataframe" where
  "enrollment_rate_step = ratio_step ''capacity'' ''current_enrollment'' ''enrollment_rate''"

definition budget_utilization_step :: "dataframe \<Rightarrow> error + dataframe" where
  "budget_utilization_step = ratio_step ''budget'' ''expenses'' ''budget_utilization''"

text \<open>
  Lines 367 to 388: the metrics that are there, each with its weight, in the order the
  source appends them. A column that is divided or subtracted from must be a float
  column at once; one that is appended as it is fails only when it is multiplied.
\<close>

definition budget_score :: "fval \<Rightarrow> fval" where
  "budget_score b = fsub (Fin 1) (fabs (fsub b (Fin 1)))"

definition metric_as_is :: "dataframe \<Rightarrow> string \<Rightarrow> rat \<Rightarrow> (column \<times> rat) list" where
  "metric_as_is data name w =
     (case get_col data name of None \<Rightarrow> [] | Some c \<Rightarrow> [(c, w)])"

definition metric_mapped ::
  "dataframe \<Rightarrow> string \<Rightarrow> (fval \<Rightarrow> fval) \<Rightarrow> rat \<Rightarrow> error + (column \<times> rat) list" where
  "metric_mapped data name f w =
     (case get_col data name of
        None \<Rightarrow> Inr []
      | Some c \<Rightarrow> bind_err (num_values c) (\<lambda>xs. Inr [(NumCol (map f xs), w)]))"

definition performance_metrics :: "dataframe \<Rightarrow> error + (column \<times> rat) list" where
  "performance_metrics data =
     bind_err (metric_mapped data ''satisfaction_score'' (\<lambda>x. fdiv x (Fin 10)) (4 / 10))
       (\<lambda>sat.
     bind_err (metric_mapped data ''budget_utilization'' budget_score (2 / 10))
       (\<lambda>bud.
       Inr (metric_as_is data ''enrollment_rate'' (3 / 10) @ sat
            @ metric_as_is data ''success_metric'' (3 / 10) @ bud)))"

text \<open>
  Lines 390 to 397: each metric times its share of the total weight, summed from 0 as
  Python's \<^verbatim>\<open>sum\<close> does, times 100; or 50 when there is no metric.
\<close>

fun weighted_metrics :: "rat \<Rightarrow> (column \<times> rat) list \<Rightarrow> error + fval list list" where
  "weighted_metrics tw [] = Inr []"
| "weighted_metrics tw ((c, w) # ms) =
     bind_err (num_values c) (\<lambda>xs.
     bind_err (weighted_metrics tw ms) (\<lambda>rest.
       Inr (map (\<lambda>x. fmul x (Fin (w / tw))) xs # rest)))"

definition add_series :: "fval list \<Rightarrow> fval list \<Rightarrow> fval list" where
  "add_series xs ys = map (\<lambda>(x, y). fadd x y) (zip xs ys)"

definition sum_series :: "dataframe \<Rightarrow> fval list list \<Rightarrow> fval list" where
  "sum_series data xss = foldl add_series (broadcast data 0) xss"

definition performance_score_step :: "dataframe \<Rightarrow> error + dataframe" where
  "performance_score_step data =
     bind_err (performance_metrics data) (\<lambda>ms.
       if ms \<noteq> [] then
         let total_weight = sum_list (map snd ms)
         in bind_err (weighted_metrics total_weight ms) (\<lambda>wms.
              Inr (set_col data ''performance_score''
                     (NumCol (map (\<lambda>x. fmul x (Fin 100)) (sum_series data wms)))))
       else Inr (set_col data ''performance_score'' (NumCol (broadcast data 50))))"

text \<open>Lines 399 to 406: the category, on the scale of the score.\<close>

definition performance_category_step :: "dataframe \<Rightarrow> error + dataframe" where
  "performance_category_step data =
     bind_err (lookup_col data ''performance_score'') (\<lambda>c.
     bind_err (num_values c) (\<lambda>xs.
       Inr (set_col data ''performance_category'' (category_column 80 60 40 xs))))"

definition program_performance_body :: "dataframe \<Rightarrow> error + dataframe" where
  "program_performance_body data =
     bind_err (enrollment_rate_step data) (\<lambda>data1.
     bind_err (budget_utilization_step data1) (\<lambda>data2.
     bind_err (performance_score_step data2) performance_category_step))"

definition analyze_program_performance :: "dataframe option \<Rightarrow> error + dataframe option" where
  "analyze_program_performance program_data =
     (case program_data of
        None \<Rightarrow> Inr None
      | Some pd \<Rightarrow>
          if nrows pd = 0 then Inr None
          else map_sum id Some (program_performance_body pd))"

section \<open>Similar members\<close>

text \<open>
  The ranker of \<^verbatim>\<open>utils/recommender.py\<close> compares single cells with the target
  identifier. \<^verbatim>\<open>==\<close> is false on a missing value and between values of different
  kinds.
\<close>

datatype cell = CNum fval | CStr "string option" | CDate "int option"

fun col_cells :: "column \<Rightarrow> cell list" where
  "col_cells (NumCol xs) = map CNum xs"
| "col_cells (StrCol xs) = map CStr xs"
| "col_cells (DateCol xs) = map CDate xs"

fun cell_eq :: "cell \<Rightarrow> cell \<Rightarrow> bool" where
  "cell_eq (CNum x) (CNum y) = (x \<noteq> NaN \<and> x = y)"
| "cell_eq (CStr x) (CStr y) = (x \<noteq> None \<and> x = y)"
| "cell_eq (CDate x) (CDate y) = (x \<noteq> None \<and> x = y)"
| "cell_eq _ _ = False"

text \<open>
  What the ranker takes from pandas and scikit-learn without the repository defining it:
  the levels of a column and their indicator columns, from which \<^verbatim>\<open>pd.get_dummies\<close>
  builds its result; \<^verbatim>\<open>StandardScaler().fit_transform\<close> on the feature columns; and
  \<^verbatim>\<open>cosine_similarity\<close>, whose result is read at a row and a column. Both
  scikit-learn calls may raise, and a similarity is a finite number.
\<close>

record library =
  dummy_levels :: "column \<Rightarrow> (string \<times> column) list"
  fit_transform :: "column list \<Rightarrow> error + fval list list"
  cosine_similarity :: "fval list list \<Rightarrow> error + (nat \<Rightarrow> nat \<Rightarrow> rat)"

text \<open>
  \<^verbatim>\<open>pd.get_dummies(column, prefix=feature)\<close> names each indicator column by the prefix,
  an underscore and the level.
\<close>

definition get_dummies :: "library \<Rightarrow> column \<Rightarrow> string \<Rightarrow> (string \<times> column) list" where
  "get_dummies L c prefix = map (\<lambda>(level, ind). (prefix @ ''_'' @ level, ind)) (dummy_levels L c)"

definition numeric_features :: "string list" where
  "numeric_features =
     [''satisfaction_score'', ''attendance_rate'', ''engagement_score'',
      ''membership_duration_days'', ''fees_paid'']"

definition categorical_features :: "string list" where
  "categorical_features = [''membership_type'', ''industry'', ''engagement_level'', ''location'']"

text \<open>\<^verbatim>\<open>pd.concat([encoded_data, one_hot], axis=1)\<close> appends the columns, whatever their names.\<close>

definition concat_cols :: "dataframe \<Rightarrow> (string \<times> column) list \<Rightarrow> dataframe" where
  "concat_cols df new = df\<lparr>cols := cols df @ new\<rparr>"

text \<open>
  Lines 413 to 422: each categorical feature of the table is encoded from the table as
  it came, its indicator columns are appended and their names recorded.
\<close>

fun encode_features ::
  "library \<Rightarrow> dataframe \<Rightarrow> string list \<Rightarrow> dataframe \<times> string list \<Rightarrow> dataframe \<times> string list"
where
  "encode_features L md [] acc = acc"
| "encode_features L md (f # fs) (encoded_data, feature_columns) =
     (case get_col md f of
        None \<Rightarrow> encode_features L md fs (encoded_data, feature_columns)
      | Some c \<Rightarrow>
          let one_hot = get_dummies L c f
          in encode_features L md fs
               (concat_cols encoded_data one_hot, feature_columns @ map fst one_hot))"

definition feature_encoding :: "library \<Rightarrow> dataframe \<Rightarrow> dataframe \<times> string list" where
  "feature_encoding L md =
     encode_features L md categorical_features (md, filter (has_col md) numeric_features)"

text \<open>\<^verbatim>\<open>encoded_data[feature_columns]\<close>: for each name in turn, every column of that name.\<close>

definition select_columns :: "dataframe \<Rightarrow> string list \<Rightarrow> column list" where
  "select_columns df names =
     concat (map (\<lambda>name. map snd (filter (\<lambda>kc. fst kc = name) (cols df))) names)"

text \<open>\<^verbatim>\<open>.index[0]\<close> of the rows that match: the first one, or \<^verbatim>\<open>IndexError\<close>.\<close>

fun first_index :: "('a \<Rightarrow> bool) \<Rightarrow> 'a list \<Rightarrow> nat option" where
  "first_index P [] = None"
| "first_index P (x # xs) =
     (if P x then Some 0 else map_option Suc (first_index P xs))"

definition target_row :: "cell list \<Rightarrow> cell \<Rightarrow> error + nat" where
  "target_row ids member_id =
     (case first_index (\<lambda>c. cell_eq c member_id) ids of
        None \<Rightarrow> Inl IndexError
      | Some i \<Rightarrow> Inr i)"

text \<open>
  A row of \<^verbatim>\<open>similarity_df\<close> (lines 444 to 449), with the label of the row it comes
  from. The function returns either the bare \<^verbatim>\<open>pd.DataFrame()\<close> or rows of this table.
\<close>

record sim_row =
  label :: nat
  row_member_id :: cell
  row_name :: cell
  similarity_score :: rat

datatype similar = EmptyFrame | Similar "sim_row list"

definition similarity_rows :: "cell list \<Rightarrow> cell list \<Rightarrow> rat list \<Rightarrow> sim_row list" where
  "similarity_rows ids names scores =
     map (\<lambda>(i, m, n, s). \<lparr>label = i, row_member_id = m, row_name = n, similarity_score = s\<rparr>)
       (zip [0..<length scores] (zip ids (zip names scores)))"

text \<open>
  \<^verbatim>\<open>sort_values('similarity_score', ascending=False)\<close>: highest first. pandas leaves the
  order of equal scores open; here they keep their order.
\<close>

definition sort_descending :: "sim_row list \<Rightarrow> sim_row list" where
  "sort_descending rows = sort_key (\<lambda>r. - similarity_score r) rows"

text \<open>\<^verbatim>\<open>head(n)\<close> is the slice \<^verbatim>\<open>[:n]\<close>: a negative \<open>n\<close> drops rows from the end.\<close>

definition head :: "int \<Rightarrow> 'a list \<Rightarrow> 'a list" where
  "head n xs = (if 0 \<le> n then take (nat n) xs else take (length xs - nat (- n)) xs)"

definition find_similar_members ::
  "library \<Rightarrow> dataframe option \<Rightarrow> cell \<Rightarrow> int \<Rightarrow> error + similar" where
  "find_similar_members L membership_data member_id n_similar =
     (case membership_data of
        None \<Rightarrow> Inr EmptyFrame
      | Some md \<Rightarrow>
          if nrows md = 0 then Inr EmptyFrame
          else
            bind_err (lookup_col md ''member_id'') (\<lambda>idc.
              if \<not> list_ex (\<lambda>c. cell_eq c member_id) (col_cells idc) then Inr EmptyFrame
              else
                let (encoded_data, feature_columns) = feature_encoding L md
                in if feature_columns = [] then Inr EmptyFrame
                   else
                     bind_err (fit_transform L (select_columns encoded_data feature_columns))
                       (\<lambda>X_scaled.
                     bind_err (cosine_similarity L X_scaled) (\<lambda>similarity_matrix.
                     bind_err (lookup_col encoded_data ''member_id'') (\<lambda>eidc.
                     bind_err (target_row (col_cells eidc) member_id) (\<lambda>target_index.
                     let similarity_scores = map (similarity_matrix target_index) [0..<nrows md]
                     in
                     bind_err (lookup_col encoded_data ''member_id'') (\<lambda>ids.
                     bind_err (lookup_col encoded_data ''name'') (\<lambda>names.
                       let similarity_df =
                             similarity_rows (col_cells ids) (col_cells names) similarity_scores;
                           others =
                             filter (\<lambda>r. \<not> cell_eq (row_member_id r) member_id) similarity_df
                       in Inr (Similar (head n_similar (sort_descending others)))))))))))"

text \<open>The rows a ranking may return: those whose identifier is not the target.\<close>

definition eligible_rows :: "dataframe \<Rightarrow> cell \<Rightarrow> nat list" where
  "eligible_rows df target =
     (case get_col df ''member_id'' of
        None \<Rightarrow> []
      | Some ids \<Rightarrow> filter (\<lambda>i. \<not> cell_eq (col_cells ids ! i) target) [0..<nrows df])"

section \<open>The scorers on a store\<close>










section \<open>What a step reads and writes\<close>

text \<open>
  A step writes the column \<open>k\<close> and reads the columns \<open>R\<close> when it either leaves the
  table as it is or assigns the column \<open>k\<close>, and does the same, with the same value, on
  every table with as many rows that agrees on the columns \<open>R\<close>.
\<close>

definition step_writes ::
  "(dataframe \<Rightarrow> error + dataframe) \<Rightarrow> string \<Rightarrow> string list \<Rightarrow> bool" where
  "step_writes step k R =
     (\<forall>X Y D. step X = Inr D \<and> nrows Y = nrows X \<and> (\<forall>c \<in> set R. get_col Y c = get_col X c)
        \<longrightarrow> (D = X \<and> step Y = Inr Y)
            \<or> (\<exists>v. D = set_col X k v \<and> step Y = Inr (set_col Y k v)))"

section \<open>Floating-point arithmetic\<close>

text \<open>
  The definitions above compute with exact rationals. pandas computes with IEEE 754
  binary64 numbers, and the two differ wherever a result is not a binary64 number. The
  scorers that round their results are therefore given a second time, over an arithmetic
  that is a parameter: \<open>fl_lit\<close> reads a decimal literal, \<open>fl_add\<close>, \<open>fl_sub\<close>,
  \<open>fl_mul\<close> and \<open>fl_div\<close> are the four operations, \<open>fl_round d\<close> is
  \<^verbatim>\<open>Series.round(d)\<close> and \<open>fl_sum\<close> is Python's \<^verbatim>\<open>sum\<close> of a list of floats.
  Comparisons, the maximum of a column and the absolute value are exact on binary64
  numbers and stay as they are. The sign of zero is not modelled: a zero is \<open>+0\<close>.
\<close>

record arith =
  fl_lit :: "rat \<Rightarrow> fval"
  fl_add :: "fval \<Rightarrow> fval \<Rightarrow> fval"
  fl_sub :: "fval \<Rightarrow> fval \<Rightarrow> fval"
  fl_mul :: "fval \<Rightarrow> fval \<Rightarrow> fval"
  fl_div :: "fval \<Rightarrow> fval \<Rightarrow> fval"
  fl_round :: "nat \<Rightarrow> fval \<Rightarrow> fval"
  fl_sum :: "fval list \<Rightarrow> fval"

text \<open>The arithmetic of the definitions above.\<close>

definition exact_arith :: arith where
  "exact_arith =
     \<lparr>fl_lit = Fin, fl_add = fadd, fl_sub = fsub, fl_mul = fmul, fl_div = fdiv,
      fl_round = fround, fl_sum = foldl fadd (Fin 0)\<rparr>"

text \<open>
  Binary64: a number other than 0 is rounded to 53 significant bits, ties to the even
  one, with the least exponent \<open>- 1074\<close> of the subnormal numbers, and becomes infinite
  from \<open>2 ^ 1024\<close> on. \<open>floor_log2 a\<close> is the exponent of a positive \<open>a\<close>.
\<close>

fun ilog2 :: "nat \<Rightarrow> nat" where
  "ilog2 n = (if n < 2 then 0 else Suc (ilog2 (n div 2)))"

declare ilog2.simps [simp del]

definition pow2 :: "int \<Rightarrow> rat" where
  "pow2 q = (if 0 \<le> q then 2 ^ nat q else 1 / 2 ^ nat (- q))"

definition floor_log2 :: "rat \<Rightarrow> int" where
  "floor_log2 a =
     (if 1 \<le> a then int (ilog2 (nat \<lfloor>a\<rfloor>))
      else - int (Suc (ilog2 (nat \<lceil>1 / a\<rceil> - 1))))"

definition round_to_double :: "rat \<Rightarrow> fval" where
  "round_to_double x =
     (if x = 0 then Fin 0
      else
        let a = \<bar>x\<bar>;
            q = max (floor_log2 a - 52) (- 1074);
            y = of_int (rint (a / pow2 q)) * pow2 q
        in if 2 ^ 1024 \<le> y then (if 0 < x then PInf else NInf)
           else Fin (if 0 < x then y else - y))"

fun rnd64 :: "fval \<Rightarrow> fval" where
  "rnd64 (Fin a) = round_to_double a"
| "rnd64 PInf = PInf"
| "rnd64 NInf = NInf"
| "rnd64 NaN = NaN"

text \<open>\<^verbatim>\<open>np.rint\<close>: the nearest integer, ties to the even one.\<close>

fun frint :: "fval \<Rightarrow> fval" where
  "frint (Fin a) = Fin (of_int (rint a))"
| "frint PInf = PInf"
| "frint NInf = NInf"
| "frint NaN = NaN"

text \<open>
  Each operation of binary64 is the exact operation, rounded. numpy rounds to \<open>d\<close>
  decimals by multiplying by \<open>10 ^ d\<close>, taking the nearest integer and dividing again,
  each step in binary64. Python's \<^verbatim>\<open>sum\<close> adds the floats to 0 from left to right
  (up to Python 3.11; from 3.12 on it also carries a correction term).
\<close>

definition binary64 :: arith where
  "binary64 =
     \<lparr>fl_lit = round_to_double,
      fl_add = (\<lambda>x y. rnd64 (fadd x y)),
      fl_sub = (\<lambda>x y. rnd64 (fsub x y)),
      fl_mul = (\<lambda>x y. rnd64 (fmul x y)),
      fl_div = (\<lambda>x y. rnd64 (fdiv x y)),
      fl_round = (\<lambda>d x. rnd64 (fdiv (frint (rnd64 (fmul x (Fin (10 ^ d))))) (Fin (10 ^ d)))),
      fl_sum = foldl (\<lambda>x y. rnd64 (fadd x y)) (Fin 0)\<rparr>"

subsection \<open>Member engagement in floating point\<close>

text \<open>
  \<^verbatim>\<open>calculate_member_engagement\<close> again, lines 242 to 279 over the arithmetic \<open>A\<close>.
  The days since the last interaction are whole numbers and the level compares the score
  with whole numbers: both steps are the ones above.
\<close>

definition attendance_score_fl :: "arith \<Rightarrow> dataframe \<Rightarrow> column" where
  "attendance_score_fl A data =
     (case get_col data ''attendance_rate'' of
        Some c \<Rightarrow> c
      | None \<Rightarrow> NumCol (replicate (nrows data) (fl_lit A (5 / 10))))"

definition satisfaction_score_fl :: "arith \<Rightarrow> dataframe \<Rightarrow> error + fval list" where
  "satisfaction_score_fl A data =
     (case get_col data ''satisfaction_score'' of
        Some c \<Rightarrow>
          bind_err (num_values c) (\<lambda>xs. Inr (map (\<lambda>x. fl_div A x (fl_lit A 10)) xs))
      | None \<Rightarrow> Inr (replicate (nrows data) (fl_lit A (5 / 10))))"

definition recency_score_fl :: "arith \<Rightarrow> dataframe \<Rightarrow> error + fval list" where
  "recency_score_fl A data =
     bind_err (lookup_col data ''days_since_interaction'') (\<lambda>c.
     bind_err (num_values c) (\<lambda>ds.
       Inr (map (\<lambda>d. fl_sub A (fl_lit A 1) (fl_div A d (series_max ds))) ds)))"

definition loyalty_score_fl :: "arith \<Rightarrow> dataframe \<Rightarrow> error + fval list" where
  "loyalty_score_fl A data =
     bind_err (lookup_col data ''membership_duration_days'') (\<lambda>c.
     bind_err (num_values c) (\<lambda>ms.
       Inr (map (\<lambda>m. fl_div A m (series_max ms)) ms)))"

definition weighted_sum_fl :: "arith \<Rightarrow> fval \<Rightarrow> fval \<Rightarrow> fval \<Rightarrow> fval \<Rightarrow> fval" where
  "weighted_sum_fl A a s r l =
     (let attendance_weight = fl_lit A (3 / 10);
          satisfaction_weight = fl_lit A (3 / 10);
          recency_weight = fl_lit A (2 / 10);
          loyalty_weight = fl_lit A (2 / 10)
      in fl_add A
           (fl_add A
              (fl_add A (fl_mul A attendance_weight a) (fl_mul A satisfaction_weight s))
              (fl_mul A recency_weight r))
           (fl_mul A loyalty_weight l))"

definition combine_scores_fl ::
  "arith \<Rightarrow> fval list \<Rightarrow> fval list \<Rightarrow> fval list \<Rightarrow> fval list \<Rightarrow> fval list" where
  "combine_scores_fl A as ss rs ls =
     map (\<lambda>(a, s, r, l). weighted_sum_fl A a s r l) (zip as (zip ss (zip rs ls)))"

definition to_percent_fl :: "arith \<Rightarrow> fval \<Rightarrow> fval" where
  "to_percent_fl A x = fl_round A 1 (fl_mul A x (fl_lit A 100))"

definition engagement_score_step_fl :: "arith \<Rightarrow> dataframe \<Rightarrow> error + dataframe" where
  "engagement_score_step_fl A data =
     bind_err (satisfaction_score_fl A data) (\<lambda>ss.
     bind_err (recency_score_fl A data) (\<lambda>rs.
     bind_err (loyalty_score_fl A data) (\<lambda>ls.
     bind_err (num_values (attendance_score_fl A data)) (\<lambda>as.
       let raw = combine_scores_fl A as ss rs ls;
           data1 = set_col data ''engagement_score'' (NumCol raw)
       in Inr (set_col data1 ''engagement_score'' (NumCol (map (to_percent_fl A) raw)))))))"

definition member_engagement_body_fl :: "arith \<Rightarrow> int \<Rightarrow> dataframe \<Rightarrow> error + dataframe" where
  "member_engagement_body_fl A now data =
     bind_err (days_since_interaction_step now data) (\<lambda>data1.
     bind_err (engagement_score_step_fl A data1) engagement_level_step)"

definition calculate_member_engagement_fl ::
  "arith \<Rightarrow> int \<Rightarrow> dataframe option \<Rightarrow> error + dataframe option" where
  "calculate_member_engagement_fl A now membership_data =
     (case membership_data of
        None \<Rightarrow> Inr None
      | Some md \<Rightarrow>
          if nrows md = 0 then Inr None
          else map_sum id Some (member_engagement_body_fl A now md))"

subsection \<open>Program performance in floating point\<close>

text \<open>
  \<^verbatim>\<open>analyze_program_performance\<close> again, lines 359 to 397 over the arithmetic \<open>A\<close>.
  The weights are decimal literals and their total is Python's \<^verbatim>\<open>sum\<close> of a list of
  floats; the weighted columns are added one after the other to 0. The total of a
  non-empty list of positive weights is not 0, so the division
  \<^verbatim>\<open>weight / total_weight\<close> does not raise.
\<close>

definition ratio_step_fl ::
  "arith \<Rightarrow> string \<Rightarrow> string \<Rightarrow> string \<Rightarrow> dataframe \<Rightarrow> error + dataframe" where
  "ratio_step_fl A den num target data =
     (if has_col data den \<and> has_col data num then
        bind_err (lookup_col data num) (\<lambda>nc.
        bind_err (lookup_col data den) (\<lambda>dc.
        bind_err (num_values nc) (\<lambda>ns.
        bind_err (num_values dc) (\<lambda>ds.
          Inr (set_col data target
                 (NumCol (map (\<lambda>(n, d). fl_round A 2 (fl_div A n d)) (zip ns ds))))))))
      else Inr data)"

definition enrollment_rate_step_fl :: "arith \<Rightarrow> dataframe \<Rightarrow> error + dataframe" where
  "enrollment_rate_step_fl A =
     ratio_step_fl A ''capacity'' ''current_enrollment'' ''enrollment_rate''"

definition budget_utilization_step_fl :: "arith \<Rightarrow> dataframe \<Rightarrow> error + dataframe" where
  "budget_utilization_step_fl A = ratio_step_fl A ''budget'' ''expenses'' ''budget_utilization''"

definition budget_score_fl :: "arith \<Rightarrow> fval \<Rightarrow> fval" where
  "budget_score_fl A b = fl_sub A (fl_lit A 1) (fabs (fl_sub A b (fl_lit A 1)))"

definition performance_metrics_fl :: "arith \<Rightarrow> dataframe \<Rightarrow> error + (column \<times> rat) list" where
  "performance_metrics_fl A data =
     bind_err (metric_mapped data ''satisfaction_score'' (\<lambda>x. fl_div A x (fl_lit A 10)) (4 / 10))
       (\<lambda>sat.
     bind_err (metric_mapped data ''budget_utilization'' (budget_score_fl A) (2 / 10))
       (\<lambda>bud.
       Inr (metric_as_is data ''enrollment_rate'' (3 / 10) @ sat
            @ metric_as_is data ''success_metric'' (3 / 10) @ bud)))"

definition total_weight_fl :: "arith \<Rightarrow> (column \<times> rat) list \<Rightarrow> fval" where
  "total_weight_fl A ms = fl_sum A (map (\<lambda>(c, w). fl_lit A w) ms)"

fun weighted_metrics_fl ::
  "arith \<Rightarrow> fval \<Rightarrow> (column \<times> rat) list \<Rightarrow> error + fval list list" where
  "weighted_metrics_fl A tw [] = Inr []"
| "weighted_metrics_fl A tw ((c, w) # ms) =
     bind_err (num_values c) (\<lambda>xs.
     bind_err (weighted_metrics_fl A tw ms) (\<lambda>rest.
       Inr (map (\<lambda>x. fl_mul A x (fl_div A (fl_lit A w) tw)) xs # rest)))"

definition add_series_fl :: "arith \<Rightarrow> fval list \<Rightarrow> fval list \<Rightarrow> fval list" where
  "add_series_fl A xs ys = map (\<lambda>(x, y). fl_add A x y) (zip xs ys)"

definition sum_series_fl :: "arith \<Rightarrow> dataframe \<Rightarrow> fval list list \<Rightarrow> fval list" where
  "sum_series_fl A data xss =
     foldl (add_series_fl A) (replicate (nrows data) (fl_lit A 0)) xss"

definition performance_score_step_fl :: "arith \<Rightarrow> dataframe \<Rightarrow> error + dataframe" where
  "performance_score_step_fl A data =
     bind_err (performance_metrics_fl A data) (\<lambda>ms.
       if ms \<noteq> [] then
         let total_weight = total_weight_fl A ms
         in bind_err (weighted_metrics_fl A total_weight ms) (\<lambda>wms.
              Inr (set_col data ''performance_score''
                     (NumCol (map (\<lambda>x. fl_mul A x (fl_lit A 100))
                                (sum_series_fl A data wms)))))
       else Inr (set_col data ''performance_score'' (NumCol (broadcast data 50))))"

definition program_performance_body_fl :: "arith \<Rightarrow> dataframe \<Rightarrow> error + dataframe" where
  "program_performance_body_fl A data =
     bind_err (enrollment_rate_step_fl A data) (\<lambda>data1.
     bind_err (budget_utilization_step_fl A data1) (\<lambda>data2.
     bind_err (performance_score_step_fl A data2) performance_category_step))"

definition analyze_program_performance_fl ::
  "arith \<Rightarrow> dataframe option \<Rightarrow> error + dataframe option" where
  "analyze_program_performance_fl A program_data =
     (case program_data of
        None \<Rightarrow> Inr None
      | Some pd \<Rightarrow>
          if nrows pd = 0 then Inr None
          else map_sum id Some (program_performance_body_fl A pd))"

section \<open>Reading tables row by row\<close>

text \<open>The typed columns of the data model: a column that is there holds what it should.\<close>

definition num_or_absent :: "dataframe \<Rightarrow> string \<Rightarrow> bool" where
  "num_or_absent df name =
     (case get_col df name of None \<Rightarrow> True | Some (NumCol xs) \<Rightarrow> True | Some c \<Rightarrow> False)"

definition date_or_absent :: "dataframe \<Rightarrow> string \<Rightarrow> bool" where
  "date_or_absent df name =
     (case get_col df name of None \<Rightarrow> True | Some (DateCol xs) \<Rightarrow> True | Some c \<Rightarrow> False)"

definition num_cell :: "dataframe \<Rightarrow> string \<Rightarrow> nat \<Rightarrow> fval" where
  "num_cell df name i = (case get_col df name of Some (NumCol xs) \<Rightarrow> xs ! i | _ \<Rightarrow> NaN)"

definition member_table :: "dataframe \<Rightarrow> bool" where
  "member_table df =
     (wf_frame df \<and> 0 < nrows df \<and> num_or_absent df ''attendance_rate''
      \<and> num_or_absent df ''satisfaction_score'' \<and> date_or_absent df ''last_interaction''
      \<and> num_or_absent df ''membership_duration_days'')"

text \<open>
  The days since the last interaction and the membership durations of a member table, row
  by row.
\<close>

definition member_days :: "int \<Rightarrow> dataframe \<Rightarrow> fval list" where
  "member_days now df =
     (case get_col df ''last_interaction'' of
        Some (DateCol ts) \<Rightarrow> map (\<lambda>t. days_between (Some now) t) ts
      | _ \<Rightarrow> replicate (nrows df) (Fin 30))"

definition member_durations :: "dataframe \<Rightarrow> fval list" where
  "member_durations df =
     (case get_col df ''membership_duration_days'' of Some (NumCol ms) \<Rightarrow> ms | _ \<Rightarrow> [])"

text \<open>
  \<open>m\<close> is the maximum of a column: the greatest of its numbers, or \<open>NaN\<close> when it has
  none.
\<close>

definition is_series_max :: "fval \<Rightarrow> fval list \<Rightarrow> bool" where
  "is_series_max m xs =
     (if \<forall>x \<in> set xs. x = NaN then m = NaN
      else m \<noteq> NaN \<and> m \<in> set xs \<and> (\<forall>x \<in> set xs. x \<noteq> NaN \<longrightarrow> fge m x))"

text \<open>
  The specification's score of a member: attendance, satisfaction, recency and loyalty
  weighted by 0.3, 0.3, 0.2 and 0.2, added up, on the scale of 100, rounded to one decimal.
\<close>

definition spec_weighted_score :: "arith \<Rightarrow> fval \<Rightarrow> fval \<Rightarrow> fval \<Rightarrow> fval \<Rightarrow> fval" where
  "spec_weighted_score A a s r l =
     fl_round A 1
       (fl_mul A
          (fl_add A
             (fl_add A
                (fl_add A (fl_mul A (fl_lit A (3 / 10)) a) (fl_mul A (fl_lit A (3 / 10)) s))
                (fl_mul A (fl_lit A (2 / 10)) r))
             (fl_mul A (fl_lit A (2 / 10)) l))
          (fl_lit A 100))"

text \<open>The sub-scores with a neutral default: the column's value, or 0.5 without the column.\<close>

definition sub_attendance :: "arith \<Rightarrow> dataframe \<Rightarrow> nat \<Rightarrow> fval" where
  "sub_attendance A df i =
     (if has_col df ''attendance_rate'' then num_cell df ''attendance_rate'' i
      else fl_lit A (1 / 2))"

definition sub_satisfaction :: "arith \<Rightarrow> dataframe \<Rightarrow> nat \<Rightarrow> fval" where
  "sub_satisfaction A df i =
     (if has_col df ''satisfaction_score''
      then fl_div A (num_cell df ''satisfaction_score'' i) (fl_lit A 10)
      else fl_lit A (1 / 2))"

text \<open>Recency and loyalty from the days, the durations and their maxima.\<close>

definition sub_recency :: "arith \<Rightarrow> fval \<Rightarrow> fval \<Rightarrow> fval" where
  "sub_recency A d m = fl_sub A (fl_lit A 1) (fl_div A d m)"

definition sub_loyalty :: "arith \<Rightarrow> fval \<Rightarrow> fval \<Rightarrow> fval" where
  "sub_loyalty A u m = fl_div A u m"

text \<open>
  The specification's reading of the defaults: recency and loyalty, too, are 0.5 when
  their source column is missing.
\<close>

definition spec_recency :: "arith \<Rightarrow> int \<Rightarrow> dataframe \<Rightarrow> nat \<Rightarrow> fval" where
  "spec_recency A now df i =
     (if has_col df ''last_interaction''
      then sub_recency A (member_days now df ! i) (series_max (member_days now df))
      else fl_lit A (1 / 2))"

definition spec_loyalty :: "arith \<Rightarrow> dataframe \<Rightarrow> nat \<Rightarrow> fval" where
  "spec_loyalty A df i =
     (if has_col df ''membership_duration_days''
      then sub_loyalty A (member_durations df ! i) (series_max (member_durations df))
      else fl_lit A (1 / 2))"

definition spec_engagement_score :: "arith \<Rightarrow> int \<Rightarrow> dataframe \<Rightarrow> nat \<Rightarrow> fval" where
  "spec_engagement_score A now df i =
     spec_weighted_score A (sub_attendance A df i) (sub_satisfaction A df i)
       (spec_recency A now df i) (spec_loyalty A df i)"



definition col_values :: "column \<Rightarrow> fval list" where
  "col_values c = (case c of NumCol xs \<Rightarrow> xs | _ \<Rightarrow> [])"

text \<open>A column that, if it is there, is a float column of full length.\<close>

definition num_col_ok :: "dataframe \<Rightarrow> string \<Rightarrow> bool" where
  "num_col_ok df name =
     (case get_col df name of
        None \<Rightarrow> True
      | Some (NumCol xs) \<Rightarrow> length xs = nrows df
      | Some c \<Rightarrow> False)"

text \<open>
  The metrics of a table as columns, against the metrics of its rows: all float columns
  of \<open>n\<close> values, and row \<open>i\<close> reads the \<open>i\<close>-th value of each with its weight.
\<close>

definition metrics_ok ::
  "nat \<Rightarrow> (column \<times> rat) list \<Rightarrow> (nat \<Rightarrow> (rat \<times> fval) list) \<Rightarrow> bool" where
  "metrics_ok n ms sm =
     (list_all (\<lambda>(c, w). \<exists>xs. c = NumCol xs \<and> length xs = n) ms
      \<and> (\<forall>i < n. sm i = map (\<lambda>(c, w). (w, col_values c ! i)) ms))"

definition program_table :: "dataframe \<Rightarrow> bool" where
  "program_table df =
     (wf_frame df \<and> 0 < nrows df \<and> num_or_absent df ''capacity''
      \<and> num_or_absent df ''current_enrollment'' \<and> num_or_absent df ''budget''
      \<and> num_or_absent df ''expenses'' \<and> num_or_absent df ''satisfaction_score''
      \<and> num_or_absent df ''success_metric'' \<and> num_or_absent df ''enrollment_rate''
      \<and> num_or_absent df ''budget_utilization'')"

text \<open>
  The specification's reading of the performance score at row \<open>i\<close> of a scored table:
  the sub-metrics whose columns are there, each with its weight (enrollment rate 0.3,
  satisfaction over 10 with 0.4, success metric 0.3, budget closeness 0.2); each weight
  divided by the total of the weights that are there; the weighted metrics added up and
  scaled by 100; 50 when there is none.
\<close>

definition spec_metric ::
  "dataframe \<Rightarrow> string \<Rightarrow> (fval \<Rightarrow> fval) \<Rightarrow> rat \<Rightarrow> nat \<Rightarrow> (rat \<times> fval) list" where
  "spec_metric df name f w i = (if has_col df name then [(w, f (num_cell df name i))] else [])"

definition spec_metrics :: "arith \<Rightarrow> dataframe \<Rightarrow> nat \<Rightarrow> (rat \<times> fval) list" where
  "spec_metrics A df i =
     spec_metric df ''enrollment_rate'' (\<lambda>x. x) (3 / 10) i
     @ spec_metric df ''satisfaction_score'' (\<lambda>x. fl_div A x (fl_lit A 10)) (4 / 10) i
     @ spec_metric df ''success_metric'' (\<lambda>x. x) (3 / 10) i
     @ spec_metric df ''budget_utilization''
         (\<lambda>b. fl_sub A (fl_lit A 1) (fabs (fl_sub A b (fl_lit A 1)))) (2 / 10) i"

definition spec_total_weight :: "arith \<Rightarrow> (rat \<times> fval) list \<Rightarrow> fval" where
  "spec_total_weight A ms = fl_sum A (map (\<lambda>(w, m). fl_lit A w) ms)"

definition spec_weighted_average :: "arith \<Rightarrow> (rat \<times> fval) list \<Rightarrow> fval" where
  "spec_weighted_average A ms =
     foldl (fl_add A) (fl_lit A 0)
       (map (\<lambda>(w, m). fl_mul A m (fl_div A (fl_lit A w) (spec_total_weight A ms))) ms)"

definition spec_performance_score :: "arith \<Rightarrow> (rat \<times> fval) list \<Rightarrow> fval" where
  "spec_performance_score A ms =
     (if ms = [] then Fin 50 else fl_mul A (spec_weighted_average A ms) (fl_lit A 100))"

text \<open>The ratio of two columns at row \<open>i\<close>, rounded to two decimals.\<close>

definition spec_ratio :: "arith \<Rightarrow> dataframe \<Rightarrow> string \<Rightarrow> string \<Rightarrow> nat \<Rightarrow> fval" where
  "spec_ratio A df num den i = fl_round A 2 (fl_div A (num_cell df num i) (num_cell df den i))"

section \<open>Example tables\<close>

definition ex_members :: dataframe where
  "ex_members =
     \<lparr>nrows = 4,
      cols = [(''attendance_rate'', NumCol [Fin (1 / 2), Fin 1, Fin 1, Fin 0]),
              (''satisfaction_score'', NumCol [Fin 10, Fin (83 / 10), Fin 0, Fin 0]),
              (''last_interaction'',
                 DateCol [Some (15 * ns_per_day), Some 0, Some 0, Some 0]),
              (''membership_duration_days'', NumCol [Fin 200, Fin 200, Fin 0, Fin 0])]\<rparr>"

definition ex_members_scored :: dataframe where
  "ex_members_scored =
     \<lparr>nrows = 4,
      cols = cols ex_members @
        [(''days_since_interaction'', NumCol [Fin 15, Fin 30, Fin 30, Fin 30]),
         (''engagement_score'', NumCol [Fin 75, Fin (749 / 10), Fin 30, Fin 0]),
         (''engagement_level'',
            StrCol [Some ''High'', Some ''Medium'', Some ''Low'', Some ''Very Low''])]\<rparr>"

definition ex_no_interaction :: dataframe where
  "ex_no_interaction =
     \<lparr>nrows = 1,
      cols = [(''attendance_rate'', NumCol [Fin 1]),
              (''satisfaction_score'', NumCol [Fin 10]),
              (''membership_duration_days'', NumCol [Fin 100])]\<rparr>"

definition ex_no_interaction_scored :: dataframe where
  "ex_no_interaction_scored =
     \<lparr>nrows = 1,
      cols = cols ex_no_interaction @
        [(''days_since_interaction'', NumCol [Fin 30]),
         (''engagement_score'', NumCol [Fin 80]),
         (''engagement_level'', StrCol [Some ''High''])]\<rparr>"

definition ex_no_duration :: dataframe where
  "ex_no_duration =
     \<lparr>nrows = 1,
      cols = [(''attendance_rate'', NumCol [Fin 1]),
              (''satisfaction_score'', NumCol [Fin 10])]\<rparr>"

definition ex_same_day :: dataframe where
  "ex_same_day =
     \<lparr>nrows = 2,
      cols = [(''attendance_rate'', NumCol [Fin 1, Fin 1]),
              (''satisfaction_score'', NumCol [Fin 10, Fin 10]),
              (''last_interaction'',
                 DateCol [Some (30 * ns_per_day), Some (30 * ns_per_day)]),
              (''membership_duration_days'', NumCol [Fin 100, Fin 50])]\<rparr>"

definition ex_same_day_scored :: dataframe where
  "ex_same_day_scored =
     \<lparr>nrows = 2,
      cols = cols ex_same_day @
        [(''days_since_interaction'', NumCol [Fin 0, Fin 0]),
         (''engagement_score'', NumCol [NaN, NaN]),
         (''engagement_level'', StrCol [Some ''Very Low'', Some ''Very Low''])]\<rparr>"

definition ex_joined_today :: dataframe where
  "ex_joined_today =
     \<lparr>nrows = 2,
      cols = [(''attendance_rate'', NumCol [Fin 1, Fin 1]),
              (''satisfaction_score'', NumCol [Fin 10, Fin 10]),
              (''last_interaction'', DateCol [Some (20 * ns_per_day), Some 0]),
              (''membership_duration_days'', NumCol [Fin 0, Fin 0])]\<rparr>"

definition ex_joined_today_scored :: dataframe where
  "ex_joined_today_scored =
     \<lparr>nrows = 2,
      cols = cols ex_joined_today @
        [(''days_since_interaction'', NumCol [Fin 10, Fin 30]),
         (''engagement_score'', NumCol [NaN, NaN]),
         (''engagement_level'', StrCol [Some ''Very Low'', Some ''Very Low''])]\<rparr>"

definition ex_library :: library where
  "ex_library =
     \<lparr>dummy_levels = (\<lambda>c. []),
      fit_transform = (\<lambda>cs. Inr (map (\<lambda>c. case c of NumCol xs \<Rightarrow> xs | _ \<Rightarrow> []) cs)),
      cosine_similarity =
        (\<lambda>X. Inr (\<lambda>i j. if i = j then 1 else [1 / 2, 9 / 10, - 1 / 5] ! ((i + j) mod 3)))\<rparr>"

definition ex_roster :: dataframe where
  "ex_roster =
     \<lparr>nrows = 4,
      cols = [(''member_id'', StrCol [Some ''M1'', Some ''M2'', Some ''M3'', Some ''M4'']),
              (''name'', StrCol [Some ''Ada'', Some ''Bo'', Some ''Cy'', Some ''Di'']),
              (''satisfaction_score'', NumCol [Fin 9, Fin 8, Fin 3, Fin 7])]\<rparr>"

definition ex_roster_ranked :: "sim_row list" where
  "ex_roster_ranked =
     [\<lparr>label = 1, row_member_id = CStr (Some ''M2''), row_name = CStr (Some ''Bo''),
       similarity_score = 9 / 10\<rparr>,
      \<lparr>label = 3, row_member_id = CStr (Some ''M4''), row_name = CStr (Some ''Di''),
       similarity_score = 1 / 2\<rparr>,
      \<lparr>label = 2, row_member_id = CStr (Some ''M3''), row_name = CStr (Some ''Cy''),
       similarity_score = - 1 / 5\<rparr>]"

definition ex_no_features :: dataframe where
  "ex_no_features =
     \<lparr>nrows = 2,
      cols = [(''member_id'', StrCol [Some ''M1'', Some ''M2'']),
              (''name'', StrCol [Some ''Ada'', Some ''Bo''])]\<rparr>"

definition ex_no_name :: dataframe where
  "ex_no_name =
     \<lparr>nrows = 2,
      cols = [(''member_id'', StrCol [Some ''M1'', Some ''M2'']),
              (''satisfaction_score'', NumCol [Fin 9, Fin 8])]\<rparr>"

definition ex_no_rows :: dataframe where
  "ex_no_rows = \<lparr>nrows = 0, cols = [(''member_id'', StrCol [])]\<rparr>"

definition ex_partners :: dataframe where
  "ex_partners =
     \<lparr>nrows = 2,
      cols = [(''start_date'', DateCol [Some 0, Some (10 * ns_per_day)]),
              (''end_date'', DateCol [Some (20 * ns_per_day), Some (100 * ns_per_day)]),
              (''value_contribution'', NumCol [Fin 10000, Fin 2500]),
              (''performance_rating'', NumCol [Fin 9, Fin 4]),
              (''alignment_score'', NumCol [Fin 7, Fin 3])]\<rparr>"

definition ex_programs :: dataframe where
  "ex_programs =
     \<lparr>nrows = 2,
      cols = [(''capacity'', NumCol [Fin 100, Fin 50]),
              (''current_enrollment'', NumCol [Fin 80, Fin 50]),
              (''budget'', NumCol [Fin 1000, Fin 1000]),
              (''expenses'', NumCol [Fin 1000, Fin 2000]),
              (''satisfaction_score'', NumCol [Fin 9, Fin 5])]\<rparr>"

definition ex_partners_scored :: dataframe where
  "ex_partners_scored =
     \<lparr>nrows = 2,
      cols = cols ex_partners @
        [(''partnership_duration'', NumCol [Fin 20, Fin 20]),
         (''roi'', NumCol [Fin 2, Fin (1 / 2)]),
         (''effectiveness_score'', NumCol [Fin 8, Fin (7 / 2)]),
         (''effectiveness_category'', StrCol [Some ''High'', Some ''Very Low''])]\<rparr>"

definition ex_programs_scored :: dataframe where
  "ex_programs_scored =
     \<lparr>nrows = 2,
      cols = cols ex_programs @
        [(''enrollment_rate'', NumCol [Fin (4 / 5), Fin 1]),
         (''budget_utilization'', NumCol [Fin 1, Fin 2]),
         (''performance_score'', NumCol [Fin (800 / 9), Fin (500 / 9)]),
         (''performance_category'', StrCol [Some ''High'', Some ''Low''])]\<rparr>"




definition ex_bare_program :: dataframe where
  "ex_bare_program = \<lparr>nrows = 1, cols = [(''status'', StrCol [Some ''Active''])]\<rparr>"

definition ex_bare_program_scored :: dataframe where
  "ex_bare_program_scored =
     \<lparr>nrows = 1,
      cols = [(''status'', StrCol [Some ''Active'']),
              (''performance_score'', NumCol [Fin 50]),
              (''performance_category'', StrCol [Some ''Low''])]\<rparr>"

text \<open>
  Tables of binary64 numbers. The decimals 0.295 and 8.7 are not binary64 numbers: the
  cells hold the binary64 numbers next to them, as \<^verbatim>\<open>pd.read_csv\<close> reads them.
\<close>

definition ex_rounding :: dataframe where
  "ex_rounding =
     \<lparr>nrows = 2,
      cols = [(''attendance_rate'', NumCol [round_to_double (295 / 1000), Fin 1]),
              (''satisfaction_score'', NumCol [round_to_double (87 / 10), Fin 10]),
              (''last_interaction'', DateCol [Some (30 * ns_per_day), Some 0]),
              (''membership_duration_days'', NumCol [Fin 100, Fin 50])]\<rparr>"

definition ex_rounding_scored :: dataframe where
  "ex_rounding_scored =
     \<lparr>nrows = 2,
      cols = cols ex_rounding @
        [(''days_since_interaction'', NumCol [Fin 0, Fin 30]),
         (''engagement_score'', NumCol [Fin (2635309469453517 / 35184372088832), Fin 70]),
         (''engagement_level'', StrCol [Some ''Medium'', Some ''Medium''])]\<rparr>"

definition ex_programs_scored64 :: dataframe where
  "ex_programs_scored64 =
     \<lparr>nrows = 2,
      cols = cols ex_programs @
        [(''enrollment_rate'', NumCol [Fin (3602879701896397 / 4503599627370496), Fin 1]),
         (''budget_utilization'', NumCol [Fin 1, Fin 2]),
         (''performance_score'',
            NumCol [Fin (6254999482459023 / 70368744177664),
                    Fin (3909374676536889 / 70368744177664)]),
         (''performance_category'', StrCol [Some ''High'', Some ''Low''])]\<rparr>"

definition ex_text_interaction :: dataframe where
  "ex_text_interaction =
     \<lparr>nrows = 1,
      cols = [(''last_interaction'', StrCol [Some ''2024-01-15'']),
              (''membership_duration_days'', NumCol [Fin 100])]\<rparr>"

definition ex_small_program :: dataframe where
  "ex_small_program =
     \<lparr>nrows = 1,
      cols = [(''capacity'', NumCol [Fin 40]), (''current_enrollment'', NumCol [Fin 23])]\<rparr>"

definition ex_small_program_scored :: dataframe where
  "ex_small_program_scored =
     \<lparr>nrows = 1,
      cols = cols ex_small_program @
        [(''enrollment_rate'', NumCol [Fin (5134103575202365 / 9007199254740992)]),
         (''performance_score'', NumCol [Fin (8022036836253695 / 140737488355328)]),
         (''performance_category'', StrCol [Some ''Low''])]\<rparr>"

section \<open>Properties\<close>

subsection \<open>Tables and exceptions\<close>

lemma get_col_set_col [simp]:
  "get_col (set_col df k v) k' = (if k' = k then Some v else get_col df k')"
  by (simp add: get_col_def set_col_def update_conv')

lemma nrows_set_col [simp]: "nrows (set_col df k v) = nrows df"
  by (simp add: set_col_def)

lemma has_col_set_col [simp]: "has_col (set_col df k v) k' = (k' = k \<or> has_col df k')"
  by (simp add: has_col_def)

lemma set_col_same: "get_col df k = Some v \<Longrightarrow> set_col df k v = df"
  by (simp add: get_col_def set_col_def update_triv)

lemma wf_get_col_len: "wf_frame df \<Longrightarrow> get_col df k = Some c \<Longrightarrow> col_len c = nrows df"
  unfolding wf_frame_def get_col_def list_all_iff
  by (auto dest!: map_of_SomeD)

lemma bind_err_simps [simp]:
  "bind_err (Inl e) f = Inl e" "bind_err (Inr x) f = f x"
  by (simp_all add: bind_err_def)

lemma bind_err_Inr_iff: "bind_err m f = Inr y \<longleftrightarrow> (\<exists>x. m = Inr x \<and> f x = Inr y)"
  by (cases m) auto

lemma num_values_Inr_iff: "num_values c = Inr xs \<longleftrightarrow> c = NumCol xs"
  by (cases c) (auto simp: num_values_def)

lemma lookup_col_Inr_iff: "lookup_col df k = Inr c \<longleftrightarrow> get_col df k = Some c"
  by (auto simp: lookup_col_def split: option.splits)

subsection \<open>Member engagement\<close>

lemma combine_scores_nth:
  assumes "length as = n" "length ss = n" "length rs = n" "length ls = n"
  shows "combine_scores as ss rs ls =
         map (\<lambda>i. weighted_sum (as ! i) (ss ! i) (rs ! i) (ls ! i)) [0..<n]"
  using assms by (auto intro!: nth_equalityI simp: combine_scores_def)

lemma engagement_level_step_result:
  assumes "engagement_level_step data = Inr D"
  shows "\<exists>xs. get_col data ''engagement_score'' = Some (NumCol xs) \<and>
           D = set_col data ''engagement_level'' (category_column 75 50 25 xs)"
  using assms
  by (auto simp: engagement_level_step_def bind_err_Inr_iff num_values_Inr_iff lookup_col_Inr_iff)

lemma member_engagement_levels:
  assumes "calculate_member_engagement now (Some T) = Inr (Some D)"
  shows "\<exists>xs. get_col D ''engagement_score'' = Some (NumCol xs) \<and>
           get_col D ''engagement_level'' = Some (category_column 75 50 25 xs)"
proof -
  from assms obtain d2 where "engagement_level_step d2 = Inr D"
    by (auto simp: calculate_member_engagement_def member_engagement_body_def bind_err_Inr_iff
          map_sum_def split: if_splits sum.splits)
  from engagement_level_step_result [OF this] show ?thesis by auto
qed

lemmas member_defs =
  calculate_member_engagement_def member_engagement_body_def days_since_interaction_step_def
  engagement_score_step_def engagement_level_step_def get_col_def set_col_def lookup_col_def num_values_def
  bind_err_def attendance_score_def satisfaction_score_def recency_score_def loyalty_score_def
  combine_scores_def weighted_sum_def to_percent_def broadcast_def series_max_def fmax_def fsub_def
  category_column_def categorize_def rint_def ns_per_day_def

lemma ex_members_result:
  "calculate_member_engagement (30 * ns_per_day) (Some ex_members) = Inr (Some ex_members_scored)"
  by (simp add: ex_members_def ex_members_scored_def member_defs)

lemma ex_no_interaction_result:
  "calculate_member_engagement 0 (Some ex_no_interaction) = Inr (Some ex_no_interaction_scored)"
  by (simp add: ex_no_interaction_def ex_no_interaction_scored_def member_defs)

text \<open>
  Claim C3. On every row of a scored member table the level follows the score by the
  thresholds 75, 50 and 25, the boundary belonging to the higher level: a score of at
  least 75 is High, one from 50 up to 75 is Medium, one from 25 up to 50 is Low, one
  below 25 is Very Low. The table \<open>ex_members\<close> has the scores 75, 74.9, 30 and 0.
\<close>

theorem engagement_level_thresholds:
  assumes "calculate_member_engagement now (Some T) = Inr (Some D)"
  shows "\<exists>scores levels.
           get_col D ''engagement_score'' = Some (NumCol scores)
           \<and> get_col D ''engagement_level'' = Some (StrCol levels)
           \<and> length levels = length scores
           \<and> (\<forall>i < length scores.
                 (fge (scores ! i) (Fin 75) \<longrightarrow> levels ! i = Some ''High'')
               \<and> (fge (scores ! i) (Fin 50) \<and> flt (scores ! i) (Fin 75)
                    \<longrightarrow> levels ! i = Some ''Medium'')
               \<and> (fge (scores ! i) (Fin 25) \<and> flt (scores ! i) (Fin 50)
                    \<longrightarrow> levels ! i = Some ''Low'')
               \<and> (flt (scores ! i) (Fin 25) \<longrightarrow> levels ! i = Some ''Very Low''))"
proof -
  from member_engagement_levels [OF assms] obtain xs where
    sc: "get_col D ''engagement_score'' = Some (NumCol xs)" and
    lv: "get_col D ''engagement_level'' = Some (category_column 75 50 25 xs)"
    by blast
  have cases: "(fge s (Fin 75) \<longrightarrow> categorize 75 50 25 s = ''High'')
     \<and> (fge s (Fin 50) \<and> flt s (Fin 75) \<longrightarrow> categorize 75 50 25 s = ''Medium'')
     \<and> (fge s (Fin 25) \<and> flt s (Fin 50) \<longrightarrow> categorize 75 50 25 s = ''Low'')
     \<and> (flt s (Fin 25) \<longrightarrow> categorize 75 50 25 s = ''Very Low'')" for s
    by (cases s) (auto simp: categorize_def flt_def)
  show ?thesis
    using sc lv cases by (simp add: category_column_def)
qed

text \<open>The four levels on the rows of \<open>ex_members\<close>: 75 is High, 74.9 is Medium.\<close>

theorem engagement_level_thresholds_witness:
  "calculate_member_engagement (30 * ns_per_day) (Some ex_members) = Inr (Some ex_members_scored)
   \<and> get_col ex_members_scored ''engagement_score'' =
       Some (NumCol [Fin 75, Fin (749 / 10), Fin 30, Fin 0])
   \<and> get_col ex_members_scored ''engagement_level'' =
       Some (StrCol [Some ''High'', Some ''Medium'', Some ''Low'', Some ''Very Low''])"
  using engagement_level_thresholds [OF ex_members_result] ex_members_result
  by (simp add: get_col_def ex_members_scored_def ex_members_def)

subsection \<open>Binary64 by evaluation\<close>

text \<open>
  Rules that let the simplifier compute \<open>round_to_double\<close> on numerals: the exponent by
  halving, and the floor of a quotient of numerals by integer division.
\<close>


lemma ilog2_numeral [simp]:
  "ilog2 0 = 0" "ilog2 (Suc 0) = 0" "ilog2 1 = 0" "ilog2 (numeral Num.One) = 0"
  "ilog2 (numeral (Num.Bit0 k)) = Suc (ilog2 (numeral k))"
  "ilog2 (numeral (Num.Bit1 k)) = Suc (ilog2 (numeral k))"
proof -
  show "ilog2 0 = 0" "ilog2 (Suc 0) = 0" "ilog2 1 = 0" "ilog2 (numeral Num.One) = 0"
    by (simp_all add: ilog2.simps)
  have "(numeral (Num.Bit0 k) :: nat) div 2 = numeral k" by simp
  moreover have "\<not> (numeral (Num.Bit0 k) :: nat) < 2" by simp
  ultimately show "ilog2 (numeral (Num.Bit0 k)) = Suc (ilog2 (numeral k))"
    by (subst ilog2.simps) simp
  have "(numeral (Num.Bit1 k) :: nat) div 2 = numeral k" by simp
  moreover have "\<not> (numeral (Num.Bit1 k) :: nat) < 2" by simp
  ultimately show "ilog2 (numeral (Num.Bit1 k)) = Suc (ilog2 (numeral k))"
    by (subst ilog2.simps) simp
qed

lemma floor_rat_numeral [simp]:
  "\<lfloor>numeral a / numeral b :: rat\<rfloor> = numeral a div numeral b"
  "\<lfloor>- (numeral a / numeral b) :: rat\<rfloor> = - numeral a div numeral b"
  "\<lceil>numeral a / numeral b :: rat\<rceil> = - (- numeral a div numeral b)"
proof -
  show "\<lfloor>numeral a / numeral b :: rat\<rfloor> = numeral a div numeral b"
    using floor_divide_of_int_eq [of "numeral a" "numeral b", where ?'a = rat] by simp
  show "\<lfloor>- (numeral a / numeral b) :: rat\<rfloor> = - numeral a div numeral b"
    using floor_divide_of_int_eq [of "- numeral a" "numeral b", where ?'a = rat] by simp
  show "\<lceil>numeral a / numeral b :: rat\<rceil> = - (- numeral a div numeral b)"
    using floor_divide_of_int_eq [of "- numeral a" "numeral b", where ?'a = rat]
    by (simp add: ceiling_def)
qed

lemmas b64_eval =
  binary64_def round_to_double_def floor_log2_def pow2_def rint_def Let_def

lemma replicate_2: "replicate 2 x = [x, x]"
  by (simp add: numeral_2_eq_2)

subsection \<open>Member engagement in floating point\<close>

lemma map_by_index: "length xs = n \<Longrightarrow> map f xs = map (\<lambda>i. f (xs ! i)) [0..<n]"
  by (auto intro!: nth_equalityI)

lemma satisfaction_score_fl_rows:
  assumes "wf_frame T" "num_or_absent T ''satisfaction_score''"
    and "get_col d ''satisfaction_score'' = get_col T ''satisfaction_score''"
    and "nrows d = nrows T"
  shows "satisfaction_score_fl A d = Inr (map (sub_satisfaction A T) [0..<nrows T])"
proof (cases "get_col T ''satisfaction_score''")
  case None
  then show ?thesis using assms
    by (auto simp: satisfaction_score_fl_def sub_satisfaction_def has_col_def
          intro!: nth_equalityI)
next
  case (Some c)
  with assms(2) obtain xs where c: "c = NumCol xs"
    by (cases c) (auto simp: num_or_absent_def)
  from wf_get_col_len [OF assms(1) Some] c have "length xs = nrows T" by simp
  from map_by_index [OF this, of "\<lambda>x. fl_div A x (fl_lit A 10)"] show ?thesis
    using Some c assms(3)
    by (simp add: satisfaction_score_fl_def sub_satisfaction_def has_col_def num_values_def
          num_cell_def)
qed

lemma attendance_score_fl_rows:
  assumes "wf_frame T" "num_or_absent T ''attendance_rate''"
    and "get_col d ''attendance_rate'' = get_col T ''attendance_rate''"
    and "nrows d = nrows T"
  shows "num_values (attendance_score_fl A d) = Inr (map (sub_attendance A T) [0..<nrows T])"
proof (cases "get_col T ''attendance_rate''")
  case None
  then show ?thesis using assms
    by (auto simp: attendance_score_fl_def sub_attendance_def has_col_def
          num_values_def intro!: nth_equalityI)
next
  case (Some c)
  with assms(2) obtain xs where c: "c = NumCol xs"
    by (cases c) (auto simp: num_or_absent_def)
  from wf_get_col_len [OF assms(1) Some] c have "length xs = nrows T" by simp
  then have "xs = map (sub_attendance A T) [0..<nrows T]"
    using Some c
    by (auto intro!: nth_equalityI simp: sub_attendance_def has_col_def num_cell_def)
  then show ?thesis using Some c assms(3)
    by (simp add: attendance_score_fl_def num_values_def)
qed

lemma loyalty_score_fl_rows:
  assumes "wf_frame T" "get_col T ''membership_duration_days'' = Some (NumCol ms)"
    and "get_col d ''membership_duration_days'' = get_col T ''membership_duration_days''"
  shows "loyalty_score_fl A d =
           Inr (map (\<lambda>i. sub_loyalty A (member_durations T ! i)
                          (series_max (member_durations T))) [0..<nrows T])"
proof -
  from wf_get_col_len [OF assms(1,2)] have "length ms = nrows T" by simp
  from map_by_index [OF this, of "\<lambda>m. fl_div A m (series_max ms)"] show ?thesis
    using assms(2,3)
    by (simp add: loyalty_score_fl_def sub_loyalty_def member_durations_def lookup_col_def
          num_values_def)
qed

lemma member_days_length: "wf_frame T \<Longrightarrow> length (member_days now T) = nrows T"
  by (auto simp: member_days_def split: option.splits column.splits dest: wf_get_col_len)

lemma days_since_interaction_step_typed:
  assumes "date_or_absent T ''last_interaction''"
  shows "days_since_interaction_step now T =
           Inr (set_col T ''days_since_interaction'' (NumCol (member_days now T)))"
  using assms
  by (auto simp: days_since_interaction_step_def member_days_def date_or_absent_def broadcast_def
        split: option.splits column.splits)

lemma recency_score_fl_rows:
  assumes "wf_frame T"
    and "get_col d ''days_since_interaction'' = Some (NumCol (member_days now T))"
  shows "recency_score_fl A d =
           Inr (map (\<lambda>i. sub_recency A (member_days now T ! i)
                          (series_max (member_days now T))) [0..<nrows T])"
  using assms(2)
    map_by_index [OF member_days_length [OF assms(1), of now],
      of "\<lambda>d. fl_sub A (fl_lit A 1) (fl_div A d (series_max (member_days now T)))"]
  by (simp add: recency_score_fl_def sub_recency_def lookup_col_def num_values_def)

lemma series_max_replicate:
  "0 < n \<Longrightarrow> series_max (replicate n (Fin v)) = Fin v"
proof -
  have "foldl fmax (Fin v) (replicate m (Fin v)) = Fin v" for m
    by (induction m) (simp_all add: fmax_def)
  moreover assume "0 < n"
  then obtain m where "n = Suc m" by (cases n) auto
  ultimately show ?thesis by (simp add: series_max_def)
qed

lemma fge_total: "x \<noteq> NaN \<Longrightarrow> y \<noteq> NaN \<Longrightarrow> fge x y \<or> fge y x"
  by (cases x; cases y) auto

lemma fge_trans: "fge x y \<Longrightarrow> fge y z \<Longrightarrow> fge x z"
  by (cases x; cases y; cases z) auto

lemma fge_refl: "x \<noteq> NaN \<Longrightarrow> fge x x"
  by (cases x) auto

lemma foldl_fmax:
  assumes "y \<noteq> NaN" "\<forall>x \<in> set ys. x \<noteq> NaN"
  shows "foldl fmax y ys \<noteq> NaN \<and> foldl fmax y ys \<in> set (y # ys)
         \<and> (\<forall>x \<in> set (y # ys). fge (foldl fmax y ys) x)"
  using assms
proof (induction ys arbitrary: y)
  case Nil
  then show ?case by (simp add: fge_refl)
next
  case (Cons a ys)
  let ?z = "fmax y a"
  from Cons.prems have a: "a \<noteq> NaN" and rest: "\<forall>x \<in> set ys. x \<noteq> NaN" by simp_all
  have z: "?z \<noteq> NaN" "?z = y \<or> ?z = a" "fge ?z y" "fge ?z a"
    using Cons.prems(1) a fge_total [of y a] by (auto simp: fmax_def fge_refl)
  from Cons.IH [OF z(1) rest] have
    r: "foldl fmax ?z ys \<noteq> NaN" "foldl fmax ?z ys \<in> set (?z # ys)"
       "\<forall>x \<in> set (?z # ys). fge (foldl fmax ?z ys) x"
    by simp_all
  from r(3) have top: "fge (foldl fmax ?z ys) ?z" by simp
  have "fge (foldl fmax ?z ys) y" "fge (foldl fmax ?z ys) a"
    using fge_trans [OF top z(3)] fge_trans [OF top z(4)] by simp_all
  with r z(2) show ?case by auto
qed

lemma series_max_is_max: "is_series_max (series_max xs) xs"
proof (cases "filter (\<lambda>x. x \<noteq> NaN) xs")
  case Nil
  then have "\<forall>x \<in> set xs. x = NaN" by (simp add: filter_empty_conv)
  with Nil show ?thesis by (simp add: is_series_max_def series_max_def)
next
  case (Cons y ys)
  then have s: "set (y # ys) = {x \<in> set xs. x \<noteq> NaN}"
    by (metis set_filter)
  then have "y \<noteq> NaN" "\<forall>x \<in> set ys. x \<noteq> NaN" by auto
  from foldl_fmax [OF this] s Cons show ?thesis
    by (auto simp: is_series_max_def series_max_def)
qed

lemma combine_scores_fl_nth:
  assumes "length as = n" "length ss = n" "length rs = n" "length ls = n"
  shows "combine_scores_fl A as ss rs ls =
         map (\<lambda>i. weighted_sum_fl A (as ! i) (ss ! i) (rs ! i) (ls ! i)) [0..<n]"
  using assms by (auto intro!: nth_equalityI simp: combine_scores_fl_def)

lemma to_percent_weighted_sum_fl:
  "to_percent_fl A (weighted_sum_fl A a s r l) = spec_weighted_score A a s r l"
  by (simp add: to_percent_fl_def weighted_sum_fl_def spec_weighted_score_def Let_def)

lemmas member_fl_defs =
  calculate_member_engagement_fl_def member_engagement_body_fl_def days_since_interaction_step_def
  engagement_score_step_fl_def engagement_level_step_def get_col_def set_col_def lookup_col_def
  num_values_def bind_err_def attendance_score_fl_def satisfaction_score_fl_def
  recency_score_fl_def loyalty_score_fl_def combine_scores_fl_def weighted_sum_fl_def
  to_percent_fl_def broadcast_def series_max_def fmax_def fsub_def category_column_def
  categorize_def ns_per_day_def

lemma ex_no_interaction_binary64:
  "calculate_member_engagement_fl binary64 0 (Some ex_no_interaction) =
     Inr (Some ex_no_interaction_scored)"
  by (simp add: ex_no_interaction_def ex_no_interaction_scored_def member_fl_defs b64_eval)

lemma ex_rounding_cells:
  "round_to_double (295 / 1000) = Fin (5314247560297185 / 18014398509481984)"
  "round_to_double (87 / 10) = Fin (2448832297382707 / 281474976710656)"
  by (simp_all add: b64_eval)

lemma ex_rounding_binary64:
  "calculate_member_engagement_fl binary64 (30 * ns_per_day) (Some ex_rounding) =
     Inr (Some ex_rounding_scored)"
  by (simp add: ex_rounding_def ex_rounding_scored_def member_fl_defs b64_eval)

text \<open>
  Claim C1, as the code has it. On a member table that has the column
  \<open>membership_duration_days\<close> (a table of rows whose columns, where present, hold
  numbers, and timestamps in \<open>last_interaction\<close>) the scorer succeeds, in every arithmetic
  \<open>A\<close>, binary64 among them. The score of row \<open>i\<close> is
  \<open>0.3 * attendance + 0.3 * satisfaction + 0.2 * recency + 0.2 * loyalty\<close>, added in this
  order, times 100 and rounded to one decimal. Attendance is the row's \<open>attendance_rate\<close>
  and satisfaction its \<open>satisfaction_score\<close> over 10; each is 0.5 when its column is
  missing. Recency is \<open>1 - d / m\<close> for the row's days \<open>d\<close> since the last interaction and
  their maximum \<open>m\<close> over the table; loyalty is the row's membership duration over the
  maximum \<open>u\<close> of the durations. Recency has no default of 0.5: without
  \<open>last_interaction\<close> every row counts 30 days, the maximum is 30, and recency is
  \<open>1 - 30 / 30\<close>.
\<close>

theorem member_engagement_weighted_sum:
  assumes "member_table T" and "has_col T ''membership_duration_days''"
  shows "\<exists>D scores m u.
           calculate_member_engagement_fl A now (Some T) = Inr (Some D)
           \<and> get_col D ''engagement_score'' = Some (NumCol scores)
           \<and> length scores = nrows T
           \<and> is_series_max m (member_days now T)
           \<and> is_series_max u (member_durations T)
           \<and> (\<forall>i < nrows T.
                 scores ! i =
                   spec_weighted_score A (sub_attendance A T i) (sub_satisfaction A T i)
                     (sub_recency A (member_days now T ! i) m)
                     (sub_loyalty A (member_durations T ! i) u))
           \<and> (\<not> has_col T ''last_interaction''
                \<longrightarrow> m = Fin 30 \<and> (\<forall>i < nrows T. member_days now T ! i = Fin 30))"
proof -
  let ?n = "nrows T"
  let ?m = "series_max (member_days now T)"
  let ?u = "series_max (member_durations T)"
  from assms(1) have wf: "wf_frame T" and pos: "0 < ?n"
    and att: "num_or_absent T ''attendance_rate''"
    and sat: "num_or_absent T ''satisfaction_score''"
    and dat: "date_or_absent T ''last_interaction''"
    and dur: "num_or_absent T ''membership_duration_days''"
    by (simp_all add: member_table_def)
  from assms(2) dur obtain ms where ms: "get_col T ''membership_duration_days'' = Some (NumCol ms)"
    by (auto simp: has_col_def num_or_absent_def split: option.splits column.splits)
  define d1 where "d1 = set_col T ''days_since_interaction'' (NumCol (member_days now T))"
  have step1: "days_since_interaction_step now T = Inr d1"
    unfolding d1_def by (rule days_since_interaction_step_typed [OF dat])
  have n1: "nrows d1 = ?n" by (simp add: d1_def)
  define as where "as = map (sub_attendance A T) [0..<?n]"
  define ss where "ss = map (sub_satisfaction A T) [0..<?n]"
  define rs where "rs = map (\<lambda>i. sub_recency A (member_days now T ! i) ?m) [0..<?n]"
  define ls where "ls = map (\<lambda>i. sub_loyalty A (member_durations T ! i) ?u) [0..<?n]"
  have ss: "satisfaction_score_fl A d1 = Inr ss"
    unfolding ss_def by (rule satisfaction_score_fl_rows [OF wf sat _ n1]) (simp add: d1_def)
  have as: "num_values (attendance_score_fl A d1) = Inr as"
    unfolding as_def by (rule attendance_score_fl_rows [OF wf att _ n1]) (simp add: d1_def)
  have ls: "loyalty_score_fl A d1 = Inr ls"
    unfolding ls_def by (rule loyalty_score_fl_rows [OF wf ms]) (simp add: d1_def)
  have rs: "recency_score_fl A d1 = Inr rs"
    unfolding rs_def by (rule recency_score_fl_rows [OF wf]) (simp add: d1_def)
  define raw where "raw = map (\<lambda>i. weighted_sum_fl A (as ! i) (ss ! i) (rs ! i) (ls ! i)) [0..<?n]"
  have comb: "combine_scores_fl A as ss rs ls = raw"
    unfolding raw_def
    by (rule combine_scores_fl_nth) (simp_all add: as_def ss_def rs_def ls_def)
  define scores where "scores = map (to_percent_fl A) raw"
  define d2 where "d2 = set_col (set_col d1 ''engagement_score'' (NumCol raw))
                          ''engagement_score'' (NumCol scores)"
  have step2: "engagement_score_step_fl A d1 = Inr d2"
    by (simp add: engagement_score_step_fl_def ss rs ls as comb d2_def scores_def)
  define D where "D = set_col d2 ''engagement_level'' (category_column 75 50 25 scores)"
  have step3: "engagement_level_step d2 = Inr D"
    by (simp add: engagement_level_step_def lookup_col_def num_values_def d2_def D_def)
  have run: "calculate_member_engagement_fl A now (Some T) = Inr (Some D)"
    using pos by (simp add: calculate_member_engagement_fl_def member_engagement_body_fl_def
        step1 step2 step3)
  have col: "get_col D ''engagement_score'' = Some (NumCol scores)"
    by (simp add: D_def d2_def)
  have len: "length scores = ?n" by (simp add: scores_def raw_def)
  have rows: "scores ! i =
                spec_weighted_score A (sub_attendance A T i) (sub_satisfaction A T i)
                  (sub_recency A (member_days now T ! i) ?m)
                  (sub_loyalty A (member_durations T ! i) ?u)" if "i < ?n" for i
    using that
    by (simp add: scores_def raw_def as_def ss_def rs_def ls_def to_percent_weighted_sum_fl)
  have dflt: "?m = Fin 30 \<and> (\<forall>i < ?n. member_days now T ! i = Fin 30)"
    if "\<not> has_col T ''last_interaction''"
  proof -
    from that have "member_days now T = replicate ?n (Fin 30)"
      by (simp add: member_days_def has_col_def)
    with pos show ?thesis by (simp add: series_max_replicate)
  qed
  from run col len rows dflt series_max_is_max [of "member_days now T"]
    series_max_is_max [of "member_durations T"]
  show ?thesis by blast
qed

text \<open>
  In binary64: a one-row table without \<open>last_interaction\<close> has recency 0 and scores 80.
  The table \<open>ex_rounding\<close> has attendance 0.295, satisfaction 8.7, recency 1 and loyalty 1
  on its first row: the sum is 0.7494999999999998, 74.94999999999999 on the scale of 100,
  and the score is 74.9, which is Medium.
\<close>

theorem member_engagement_weighted_sum_witness:
  "member_table ex_no_interaction \<and> has_col ex_no_interaction ''membership_duration_days''
   \<and> \<not> has_col ex_no_interaction ''last_interaction''
   \<and> calculate_member_engagement_fl binary64 0 (Some ex_no_interaction) =
       Inr (Some ex_no_interaction_scored)
   \<and> get_col ex_no_interaction_scored ''engagement_score'' = Some (NumCol [Fin 80])
   \<and> sub_recency binary64 (Fin 30) (Fin 30) = Fin 0
   \<and> spec_weighted_score binary64 (sub_attendance binary64 ex_no_interaction 0)
         (sub_satisfaction binary64 ex_no_interaction 0)
         (sub_recency binary64 (Fin 30) (Fin 30)) (sub_loyalty binary64 (Fin 100) (Fin 100)) =
       Fin 80
   \<and> member_table ex_rounding
   \<and> calculate_member_engagement_fl binary64 (30 * ns_per_day) (Some ex_rounding) =
       Inr (Some ex_rounding_scored)
   \<and> get_col ex_rounding_scored ''engagement_score'' =
       Some (NumCol [Fin (2635309469453517 / 35184372088832), Fin 70])
   \<and> get_col ex_rounding_scored ''engagement_level'' =
       Some (StrCol [Some ''Medium'', Some ''Medium''])"
proof -
  have t: "member_table ex_no_interaction"
    by (simp add: member_table_def wf_frame_def num_or_absent_def date_or_absent_def
          get_col_def ex_no_interaction_def)
  have h: "has_col ex_no_interaction ''membership_duration_days''"
    and n: "\<not> has_col ex_no_interaction ''last_interaction''"
    by (simp_all add: has_col_def get_col_def ex_no_interaction_def)
  have r: "nrows ex_no_interaction = 1" by (simp add: ex_no_interaction_def)
  have c: "get_col ex_no_interaction_scored ''engagement_score'' = Some (NumCol [Fin 80])"
    by (simp add: get_col_def ex_no_interaction_scored_def ex_no_interaction_def)
  have days: "member_days 0 ex_no_interaction = [Fin 30]"
    and durs: "member_durations ex_no_interaction = [Fin 100]"
    by (simp_all add: member_days_def member_durations_def get_col_def ex_no_interaction_def)
  from member_engagement_weighted_sum [OF t h, of binary64 0] obtain D scores m u where
    run: "calculate_member_engagement_fl binary64 0 (Some ex_no_interaction) = Inr (Some D)"
    and col: "get_col D ''engagement_score'' = Some (NumCol scores)"
    and u: "is_series_max u (member_durations ex_no_interaction)"
    and rows: "\<forall>i < nrows ex_no_interaction.
                 scores ! i =
                   spec_weighted_score binary64 (sub_attendance binary64 ex_no_interaction i)
                     (sub_satisfaction binary64 ex_no_interaction i)
                     (sub_recency binary64 (member_days 0 ex_no_interaction ! i) m)
                     (sub_loyalty binary64 (member_durations ex_no_interaction ! i) u)"
    and dflt: "\<not> has_col ex_no_interaction ''last_interaction'' \<longrightarrow> m = Fin 30"
    by blast
  from run ex_no_interaction_binary64 have "D = ex_no_interaction_scored" by simp
  with col c have s: "scores = [Fin 80]" by simp
  from dflt n have m: "m = Fin 30" by simp
  from u have u': "u = Fin 100" by (simp add: durs is_series_max_def)
  from rows r have "scores ! 0 =
      spec_weighted_score binary64 (sub_attendance binary64 ex_no_interaction 0)
        (sub_satisfaction binary64 ex_no_interaction 0)
        (sub_recency binary64 (member_days 0 ex_no_interaction ! 0) m)
        (sub_loyalty binary64 (member_durations ex_no_interaction ! 0) u)" by simp
  then have w: "spec_weighted_score binary64 (sub_attendance binary64 ex_no_interaction 0)
         (sub_satisfaction binary64 ex_no_interaction 0)
         (sub_recency binary64 (Fin 30) (Fin 30)) (sub_loyalty binary64 (Fin 100) (Fin 100)) =
       Fin 80"
    by (simp add: s m u' days durs)
  have z: "sub_recency binary64 (Fin 30) (Fin 30) = Fin 0"
    by (simp add: sub_recency_def fsub_def b64_eval)
  have t2: "member_table ex_rounding"
    by (simp add: member_table_def wf_frame_def num_or_absent_def date_or_absent_def
          get_col_def ex_rounding_def)
  have c2: "get_col ex_rounding_scored ''engagement_score'' =
       Some (NumCol [Fin (2635309469453517 / 35184372088832), Fin 70])"
    "get_col ex_rounding_scored ''engagement_level'' =
       Some (StrCol [Some ''Medium'', Some ''Medium''])"
    by (simp_all add: get_col_def ex_rounding_scored_def ex_rounding_def)
  from t h n c w z t2 c2 ex_no_interaction_binary64 ex_rounding_binary64
  show ?thesis by blast
qed

text \<open>
  Claim C1 as stated fails. Without \<open>last_interaction\<close> the code scores 80 where a
  recency of 0.5 gives 90, and without \<open>membership_duration_days\<close> the code raises.
\<close>

theorem member_engagement_defaults_counterexample:
  "calculate_member_engagement_fl binary64 0 (Some ex_no_interaction) =
     Inr (Some ex_no_interaction_scored)
   \<and> get_col ex_no_interaction_scored ''engagement_score'' = Some (NumCol [Fin 80])
   \<and> spec_engagement_score binary64 0 ex_no_interaction 0 = Fin 90
   \<and> calculate_member_engagement_fl binary64 0 (Some ex_no_duration) =
       Inl (KeyError ''membership_duration_days'')"
proof -
  have "spec_engagement_score binary64 0 ex_no_interaction 0 = Fin 90"
    by (simp add: spec_engagement_score_def spec_weighted_score_def spec_recency_def
          spec_loyalty_def sub_loyalty_def sub_attendance_def sub_satisfaction_def
          member_durations_def num_cell_def has_col_def get_col_def ex_no_interaction_def
          series_max_def b64_eval)
  moreover have "calculate_member_engagement_fl binary64 0 (Some ex_no_duration) =
       Inl (KeyError ''membership_duration_days'')"
    by (simp add: ex_no_duration_def member_fl_defs b64_eval)
  moreover have "get_col ex_no_interaction_scored ''engagement_score'' = Some (NumCol [Fin 80])"
    by (simp add: get_col_def ex_no_interaction_scored_def ex_no_interaction_def)
  ultimately show ?thesis using ex_no_interaction_binary64 by simp
qed

text \<open>
  A \<open>last_interaction\<close> column of strings, as \<^verbatim>\<open>pd.read_csv\<close> leaves it, cannot be
  subtracted from the clock: the scorer raises.
\<close>

lemma ex_text_interaction_raises:
  "calculate_member_engagement_fl A now (Some ex_text_interaction) = Inl TypeError"
  by (simp add: calculate_member_engagement_fl_def member_engagement_body_fl_def
        days_since_interaction_step_def get_col_def ex_text_interaction_def)

text \<open>Over the exact arithmetic the scorer is the one of the first sections.\<close>

lemma exact_arith_simps [simp]:
  "fl_lit exact_arith = Fin" "fl_add exact_arith = fadd" "fl_sub exact_arith = fsub"
  "fl_mul exact_arith = fmul" "fl_div exact_arith = fdiv" "fl_round exact_arith = fround"
  "fl_sum exact_arith = foldl fadd (Fin 0)"
  by (simp_all add: exact_arith_def)

lemma member_engagement_exact:
  "calculate_member_engagement_fl exact_arith now md = calculate_member_engagement now md"
proof -
  have w: "weighted_sum_fl exact_arith = weighted_sum"
    by (simp add: fun_eq_iff weighted_sum_fl_def weighted_sum_def Let_def)
  have p: "to_percent_fl exact_arith = to_percent"
    by (simp add: fun_eq_iff to_percent_fl_def to_percent_def)
  have "satisfaction_score_fl exact_arith = satisfaction_score"
    "attendance_score_fl exact_arith = attendance_score"
    "recency_score_fl exact_arith = recency_score"
    "loyalty_score_fl exact_arith = loyalty_score"
    "combine_scores_fl exact_arith = combine_scores"
    by (simp_all add: fun_eq_iff satisfaction_score_fl_def satisfaction_score_def
          recency_score_fl_def recency_score_def loyalty_score_fl_def loyalty_score_def
          attendance_score_fl_def attendance_score_def combine_scores_fl_def combine_scores_def
          broadcast_def w split: option.splits)
  then have "engagement_score_step_fl exact_arith = engagement_score_step"
    by (simp add: fun_eq_iff engagement_score_step_fl_def engagement_score_step_def p)
  then have "member_engagement_body_fl exact_arith = member_engagement_body"
    by (intro ext) (simp add: member_engagement_body_fl_def member_engagement_body_def)
  then show ?thesis
    by (simp add: calculate_member_engagement_fl_def calculate_member_engagement_def
          split: option.splits)
qed

text \<open>
  Claim C2. The divisions by the column maximum are not guarded. When every row has 0
  days since its interaction (\<open>ex_same_day\<close>), or every membership lasts 0 days
  (\<open>ex_joined_today\<close>), the quotient \<open>0 / 0\<close> is \<open>NaN\<close> and so is every score.
\<close>

theorem zero_denominator_unguarded:
  "calculate_member_engagement (30 * ns_per_day) (Some ex_same_day) = Inr (Some ex_same_day_scored)
   \<and> get_col ex_same_day_scored ''engagement_score'' = Some (NumCol [NaN, NaN])
   \<and> calculate_member_engagement (30 * ns_per_day) (Some ex_joined_today) =
       Inr (Some ex_joined_today_scored)
   \<and> get_col ex_joined_today_scored ''engagement_score'' = Some (NumCol [NaN, NaN])"
  by (simp add: ex_same_day_def ex_same_day_scored_def ex_joined_today_def
        ex_joined_today_scored_def member_defs)

subsection \<open>Similar members\<close>

lemmas ranker_defs =
  find_similar_members_def feature_encoding_def numeric_features_def categorical_features_def
  get_dummies_def concat_cols_def select_columns_def target_row_def similarity_rows_def
  sort_descending_def head_def lookup_col_def get_col_def has_col_def bind_err_def
  ex_library_def

lemma upt_4: "[0..<4] = [0, 1, 2, 3]"
  by (simp add: upt_rec)

lemma ex_roster_top2:
  "find_similar_members ex_library (Some ex_roster) (CStr (Some ''M1'')) 2 =
     Inr (Similar (take 2 ex_roster_ranked))"
  by (simp add: ex_roster_def ex_roster_ranked_def ranker_defs upt_4)

lemma ex_roster_all:
  "find_similar_members ex_library (Some ex_roster) (CStr (Some ''M1'')) 5 =
     Inr (Similar ex_roster_ranked)"
  by (simp add: ex_roster_def ex_roster_ranked_def ranker_defs upt_4)

lemma ex_no_features_result:
  "find_similar_members ex_library (Some ex_no_features) (CStr (Some ''M1'')) 5 = Inr EmptyFrame"
  by (simp add: ex_no_features_def ranker_defs)

lemma ex_no_name_result:
  "find_similar_members ex_library (Some ex_no_name) (CStr (Some ''M1'')) 5 = Inl (KeyError ''name'')"
  by (simp add: ex_no_name_def ranker_defs)

lemma first_index_Some:
  "list_ex P xs \<Longrightarrow> \<exists>i. first_index P xs = Some i \<and> i < length xs \<and> P (xs ! i)"
  by (induction xs) auto

lemma target_row_Inr:
  "list_ex (\<lambda>c. cell_eq c target) ids \<Longrightarrow> \<exists>i. target_row ids target = Inr i"
  using first_index_Some [of "\<lambda>c. cell_eq c target" ids]
  by (auto simp: target_row_def)

lemma encode_features_cols:
  "\<exists>extra. cols (fst (encode_features L md fs (enc, fc))) = cols enc @ extra
     \<and> nrows (fst (encode_features L md fs (enc, fc))) = nrows enc
     \<and> (\<forall>k \<in> fst ` set extra. \<exists>f \<in> set fs. \<exists>lv. k = f @ ''_'' @ lv)"
proof (induction fs arbitrary: enc fc)
  case Nil
  then show ?case by simp
next
  case (Cons f fs)
  show ?case
  proof (cases "get_col md f")
    case None
    with Cons.IH [of enc fc] show ?thesis by auto
  next
    case (Some c)
    let ?oh = "get_dummies L c f"
    from Cons.IH [of "concat_cols enc ?oh" "fc @ map fst ?oh"]
    obtain extra where
      e: "cols (fst (encode_features L md fs (concat_cols enc ?oh, fc @ map fst ?oh))) =
            cols (concat_cols enc ?oh) @ extra"
      and n: "nrows (fst (encode_features L md fs (concat_cols enc ?oh, fc @ map fst ?oh))) =
            nrows (concat_cols enc ?oh)"
      and k: "\<forall>k \<in> fst ` set extra. \<exists>f \<in> set fs. \<exists>lv. k = f @ ''_'' @ lv"
      by blast
    have oh: "\<forall>k \<in> fst ` set ?oh. \<exists>lv. k = f @ ''_'' @ lv"
      by (auto simp: get_dummies_def)
    show ?thesis
    proof (intro exI [of _ "?oh @ extra"] conjI)
      show "cols (fst (encode_features L md (f # fs) (enc, fc))) = cols enc @ ?oh @ extra"
        using Some e by (simp add: concat_cols_def Let_def)
      show "nrows (fst (encode_features L md (f # fs) (enc, fc))) = nrows enc"
        using Some n by (simp add: concat_cols_def Let_def)
      show "\<forall>k \<in> fst ` set (?oh @ extra). \<exists>g \<in> set (f # fs). \<exists>lv. k = g @ ''_'' @ lv"
        using oh k by (auto simp: image_Un)
    qed
  qed
qed

lemma feature_encoding_cols:
  "\<exists>extra. cols (fst (feature_encoding L md)) = cols md @ extra
     \<and> (\<forall>k \<in> fst ` set extra. 9 \<le> length k)"
proof -
  from encode_features_cols [of L md categorical_features md "filter (has_col md) numeric_features"]
  obtain extra where
    e: "cols (fst (feature_encoding L md)) = cols md @ extra"
    and k: "\<forall>k \<in> fst ` set extra. \<exists>f \<in> set categorical_features. \<exists>lv. k = f @ ''_'' @ lv"
    unfolding feature_encoding_def by blast
  have "9 \<le> length k" if "k \<in> fst ` set extra" for k
  proof -
    from k that obtain f lv where "f \<in> set categorical_features" "k = f @ ''_'' @ lv" by blast
    then show ?thesis by (auto simp: categorical_features_def)
  qed
  with e show ?thesis by blast
qed

lemma get_col_feature_encoding_present:
  assumes "get_col md k = Some c"
  shows "get_col (fst (feature_encoding L md)) k = Some c"
proof -
  from feature_encoding_cols [of L md] obtain extra where
    "cols (fst (feature_encoding L md)) = cols md @ extra" by blast
  with assms show ?thesis by (simp add: get_col_def)
qed

lemma get_col_feature_encoding_short:
  assumes "length k < 9"
  shows "get_col (fst (feature_encoding L md)) k = get_col md k"
proof -
  from feature_encoding_cols [of L md] obtain extra where
    e: "cols (fst (feature_encoding L md)) = cols md @ extra"
    and k: "\<forall>k \<in> fst ` set extra. 9 \<le> length k" by blast
  from k assms have "k \<notin> fst ` set extra" by auto
  then have "map_of extra k = None" by (simp add: map_of_eq_None_iff)
  with e show ?thesis by (simp add: get_col_def map_add_def split: option.splits)
qed

text \<open>
  Claim C7. Each scorer returns \<open>None\<close>, and raises nothing, on a missing table and on
  a table without rows. The ranker returns the empty frame on a missing table, on a table
  without rows, when the target is not among the identifiers of the table, and when the
  table yields no feature column.
\<close>

theorem empty_input_gives_empty_result:
  "calculate_member_engagement now None = Inr None
   \<and> calculate_partnership_effectiveness now None = Inr None
   \<and> analyze_program_performance None = Inr None
   \<and> find_similar_members L None target k = Inr EmptyFrame
   \<and> (nrows T = 0 \<longrightarrow>
        calculate_member_engagement now (Some T) = Inr None
        \<and> calculate_partnership_effectiveness now (Some T) = Inr None
        \<and> analyze_program_performance (Some T) = Inr None
        \<and> find_similar_members L (Some T) target k = Inr EmptyFrame)
   \<and> (\<forall>ids. get_col T ''member_id'' = Some ids
          \<and> \<not> list_ex (\<lambda>c. cell_eq c target) (col_cells ids)
        \<longrightarrow> find_similar_members L (Some T) target k = Inr EmptyFrame)
   \<and> (has_col T ''member_id'' \<and> snd (feature_encoding L T) = []
        \<longrightarrow> find_similar_members L (Some T) target k = Inr EmptyFrame)"
  by (auto simp: calculate_member_engagement_def calculate_partnership_effectiveness_def
        analyze_program_performance_def find_similar_members_def lookup_col_def has_col_def
        split: prod.splits)

text \<open>
  A table without rows; a roster that has no member \<open>M9\<close>; a roster without features.
\<close>

theorem empty_input_gives_empty_result_witness:
  "nrows ex_no_rows = 0
   \<and> calculate_member_engagement 0 (Some ex_no_rows) = Inr None
   \<and> find_similar_members ex_library (Some ex_no_rows) (CStr (Some ''M1'')) 5 = Inr EmptyFrame
   \<and> get_col ex_roster ''member_id'' = Some (StrCol [Some ''M1'', Some ''M2'', Some ''M3'', Some ''M4''])
   \<and> \<not> list_ex (\<lambda>c. cell_eq c (CStr (Some ''M9'')))
          (col_cells (StrCol [Some ''M1'', Some ''M2'', Some ''M3'', Some ''M4'']))
   \<and> find_similar_members ex_library (Some ex_roster) (CStr (Some ''M9'')) 5 = Inr EmptyFrame
   \<and> has_col ex_no_features ''member_id'' \<and> snd (feature_encoding ex_library ex_no_features) = []
   \<and> find_similar_members ex_library (Some ex_no_features) (CStr (Some ''M1'')) 5 = Inr EmptyFrame"
proof -
  have a: "nrows ex_no_rows = 0" by (simp add: ex_no_rows_def)
  have b: "get_col ex_roster ''member_id'' =
             Some (StrCol [Some ''M1'', Some ''M2'', Some ''M3'', Some ''M4''])"
    by (simp add: get_col_def ex_roster_def)
  have c: "\<not> list_ex (\<lambda>c. cell_eq c (CStr (Some ''M9'')))
          (col_cells (StrCol [Some ''M1'', Some ''M2'', Some ''M3'', Some ''M4'']))"
    by simp
  have d: "has_col ex_no_features ''member_id''"
    by (simp add: has_col_def get_col_def ex_no_features_def)
  have e: "snd (feature_encoding ex_library ex_no_features) = []"
    by (simp add: feature_encoding_def numeric_features_def categorical_features_def
          has_col_def get_col_def ex_no_features_def)
  from empty_input_gives_empty_result [of 0 ex_library "CStr (Some ''M1'')" 5 ex_no_rows] a
  have r1: "calculate_member_engagement 0 (Some ex_no_rows) = Inr None"
    and r2: "find_similar_members ex_library (Some ex_no_rows) (CStr (Some ''M1'')) 5 = Inr EmptyFrame"
    by simp_all
  from empty_input_gives_empty_result [of 0 ex_library "CStr (Some ''M9'')" 5 ex_roster] b c
  have r3: "find_similar_members ex_library (Some ex_roster) (CStr (Some ''M9'')) 5 = Inr EmptyFrame"
    by blast
  from empty_input_gives_empty_result [of 0 ex_library "CStr (Some ''M1'')" 5 ex_no_features] d e
  have r4: "find_similar_members ex_library (Some ex_no_features) (CStr (Some ''M1'')) 5 = Inr EmptyFrame"
    by blast
  from a b c d e r1 r2 r3 r4 show ?thesis by blast
qed

text \<open>
  Claim C10. On a table with rows that holds the target identifier and yields a feature
  column, but has no \<open>name\<close> column, the ranker raises. Unless one of the two
  scikit-learn calls raises first, the exception is the failed lookup of \<open>name\<close>.
\<close>

theorem missing_name_column_raises:
  assumes "0 < nrows T"
    and "get_col T ''member_id'' = Some ids"
    and "list_ex (\<lambda>c. cell_eq c target) (col_cells ids)"
    and "snd (feature_encoding L T) \<noteq> []"
    and "\<not> has_col T ''name''"
  shows "\<exists>e. find_similar_members L (Some T) target k = Inl e
           \<and> (\<forall>X S. fit_transform L (select_columns (fst (feature_encoding L T))
                                       (snd (feature_encoding L T))) = Inr X
                    \<and> cosine_similarity L X = Inr S
                  \<longrightarrow> e = KeyError ''name'')"
proof -
  obtain enc fc where ef: "feature_encoding L T = (enc, fc)" by (cases "feature_encoding L T")
  from assms(4) ef have fc: "fc \<noteq> []" by simp
  from get_col_feature_encoding_present [OF assms(2), of L] ef
  have mid: "get_col enc ''member_id'' = Some ids" by simp
  from get_col_feature_encoding_short [of "''name''" L T] ef assms(5)
  have nm: "get_col enc ''name'' = None" by (simp add: has_col_def)
  from target_row_Inr [OF assms(3)] obtain i where tr: "target_row (col_cells ids) target = Inr i"
    by blast
  show ?thesis
    using assms(1,2,3) ef fc mid nm tr
    by (cases "fit_transform L (select_columns enc fc)";
        cases "cosine_similarity L (projr (fit_transform L (select_columns enc fc)))")
       (auto simp: find_similar_members_def lookup_col_def)
qed

text \<open>A roster with a score column and no names.\<close>

theorem missing_name_column_raises_witness:
  "0 < nrows ex_no_name
   \<and> get_col ex_no_name ''member_id'' = Some (StrCol [Some ''M1'', Some ''M2''])
   \<and> list_ex (\<lambda>c. cell_eq c (CStr (Some ''M1''))) (col_cells (StrCol [Some ''M1'', Some ''M2'']))
   \<and> snd (feature_encoding ex_library ex_no_name) \<noteq> []
   \<and> \<not> has_col ex_no_name ''name''
   \<and> find_similar_members ex_library (Some ex_no_name) (CStr (Some ''M1'')) 5 =
       Inl (KeyError ''name'')"
proof -
  have a: "0 < nrows ex_no_name" by (simp add: ex_no_name_def)
  have b: "get_col ex_no_name ''member_id'' = Some (StrCol [Some ''M1'', Some ''M2''])"
    by (simp add: get_col_def ex_no_name_def)
  have c: "list_ex (\<lambda>c. cell_eq c (CStr (Some ''M1'')))
             (col_cells (StrCol [Some ''M1'', Some ''M2'']))"
    by simp
  have d: "snd (feature_encoding ex_library ex_no_name) \<noteq> []"
    by (simp add: feature_encoding_def numeric_features_def categorical_features_def
          has_col_def get_col_def ex_no_name_def)
  have e: "\<not> has_col ex_no_name ''name''"
    by (simp add: has_col_def get_col_def ex_no_name_def)
  have f: "\<exists>X. fit_transform ex_library
                 (select_columns (fst (feature_encoding ex_library ex_no_name))
                    (snd (feature_encoding ex_library ex_no_name))) = Inr X
               \<and> (\<exists>S. cosine_similarity ex_library X = Inr S)"
    by (simp add: ex_library_def)
  from missing_name_column_raises [OF a b c d e, of 5] f
  have "find_similar_members ex_library (Some ex_no_name) (CStr (Some ''M1'')) 5 =
          Inl (KeyError ''name'')"
    by blast
  with a b c d e show ?thesis by blast
qed

lemma similarity_rows_index:
  assumes "length ids = n" "length names = n" "length scores = n"
  shows "similarity_rows ids names scores =
           map (\<lambda>i. \<lparr>label = i, row_member_id = ids ! i, row_name = names ! i,
                      similarity_score = scores ! i\<rparr>) [0..<n]"
  using assms by (auto intro!: nth_equalityI simp: similarity_rows_def)

lemma length_col_cells [simp]: "length (col_cells c) = col_len c"
  by (cases c) simp_all

lemma sorted_descending:
  "sorted_wrt (\<lambda>a b. similarity_score b \<le> similarity_score a) (sort_descending rows)"
proof -
  have "sorted (map (\<lambda>r. - similarity_score r) (sort_descending rows))"
    unfolding sort_descending_def by (rule sorted_sort_key)
  then show ?thesis
    by (simp add: sorted_wrt_map sorted_wrt_iff_nth_less)
qed

lemma head_nonneg: "0 \<le> k \<Longrightarrow> head k xs = take (nat k) xs"
  by (simp add: head_def)

lemma find_similar_members_unfold:
  assumes ids: "get_col T ''member_id'' = Some ids"
    and ef: "feature_encoding L T = (enc, fc)"
  shows "find_similar_members L (Some T) target k =
     (if nrows T = 0 \<or> \<not> list_ex (\<lambda>c. cell_eq c target) (col_cells ids) \<or> fc = []
      then Inr EmptyFrame
      else
        bind_err (fit_transform L (select_columns enc fc)) (\<lambda>X.
        bind_err (cosine_similarity L X) (\<lambda>S.
        bind_err (target_row (col_cells ids) target) (\<lambda>i.
        bind_err (lookup_col enc ''name'') (\<lambda>names.
          Inr (Similar (head k (sort_descending
                 (filter (\<lambda>r. \<not> cell_eq (row_member_id r) target)
                    (similarity_rows (col_cells ids) (col_cells names)
                       (map (S i) [0..<nrows T])))))))))))"
proof -
  from get_col_feature_encoding_present [OF ids, of L] ef
  have mid: "lookup_col enc ''member_id'' = Inr ids" by (simp add: lookup_col_def)
  have top: "lookup_col T ''member_id'' = Inr ids" using ids by (simp add: lookup_col_def)
  show ?thesis
    unfolding find_similar_members_def option.case top bind_err_simps ef prod.case mid Let_def
    by simp
qed

lemma find_similar_members_Similar:
  assumes res: "find_similar_members L (Some T) target k = Inr (Similar rows)"
    and wf: "wf_frame T"
  shows "\<exists>ids names scores.
           get_col T ''member_id'' = Some ids \<and> length scores = nrows T
           \<and> length names = nrows T
           \<and> rows = head k (sort_descending
                 (filter (\<lambda>r. \<not> cell_eq (row_member_id r) target)
                    (map (\<lambda>i. \<lparr>label = i, row_member_id = col_cells ids ! i,
                               row_name = names ! i, similarity_score = scores ! i\<rparr>)
                       [0..<nrows T])))"
proof -
  obtain enc fc where ef: "feature_encoding L T = (enc, fc)" by (cases "feature_encoding L T")
  have nz: "nrows T \<noteq> 0"
  proof
    assume "nrows T = 0"
    with res show False by (simp add: find_similar_members_def)
  qed
  have "\<exists>ids. get_col T ''member_id'' = Some ids"
  proof (cases "get_col T ''member_id''")
    case None
    with res nz show ?thesis by (simp add: find_similar_members_def lookup_col_def)
  qed simp
  then obtain ids where ids: "get_col T ''member_id'' = Some ids" by blast
  from get_col_feature_encoding_short [of "''name''" L T] ef
  have nm: "get_col enc ''name'' = get_col T ''name''" by simp
  from res [unfolded find_similar_members_unfold [OF ids ef]]
  obtain X S i nc where
    nc: "lookup_col enc ''name'' = Inr nc"
    and rows: "Similar rows = Similar (head k (sort_descending
                 (filter (\<lambda>r. \<not> cell_eq (row_member_id r) target)
                    (similarity_rows (col_cells ids) (col_cells nc) (map (S i) [0..<nrows T])))))"
    by (auto simp only: bind_err_Inr_iff sum.inject simp_thms split: if_splits)
  from nc nm have nc': "get_col T ''name'' = Some nc" by (simp add: lookup_col_Inr_iff)
  from wf_get_col_len [OF wf ids] have l1: "length (col_cells ids) = nrows T" by simp
  from wf_get_col_len [OF wf nc'] have l2: "length (col_cells nc) = nrows T" by simp
  have l3: "length (map (S i) [0..<nrows T]) = nrows T" by simp
  from rows have "rows = head k (sort_descending
                 (filter (\<lambda>r. \<not> cell_eq (row_member_id r) target)
                    (similarity_rows (col_cells ids) (col_cells nc) (map (S i) [0..<nrows T]))))"
    by simp
  then have "rows = head k (sort_descending
                 (filter (\<lambda>r. \<not> cell_eq (row_member_id r) target)
                    (map (\<lambda>j. \<lparr>label = j, row_member_id = col_cells ids ! j,
                               row_name = col_cells nc ! j,
                               similarity_score = map (S i) [0..<nrows T] ! j\<rparr>)
                       [0..<nrows T])))"
    by (simp only: similarity_rows_index [OF l1 l2 l3])
  with ids l2 l3 show ?thesis by blast
qed

text \<open>
  Claim C6, as the code has it. Whenever the ranker returns a ranking for a count
  \<open>k \<ge> 0\<close>, no row of it bears the target identifier, every row is an eligible row of
  the table and none comes twice, there are at most \<open>k\<close> rows, the scores descend, and if
  the table has at most \<open>k\<close> eligible rows the ranking holds all of them.
\<close>

theorem similar_members_ranking:
  assumes res: "find_similar_members L (Some T) target k = Inr (Similar rows)"
    and wf: "wf_frame T" and k: "0 \<le> k"
  shows "(\<forall>r \<in> set rows. \<not> cell_eq (row_member_id r) target \<and> label r \<in> set (eligible_rows T target))
         \<and> distinct (map label rows)
         \<and> int (length rows) \<le> k
         \<and> sorted_wrt (\<lambda>a b. similarity_score b \<le> similarity_score a) rows
         \<and> (int (length (eligible_rows T target)) \<le> k
              \<longrightarrow> length rows = length (eligible_rows T target)
                \<and> set (map label rows) = set (eligible_rows T target))"
proof -
  from find_similar_members_Similar [OF res wf] obtain ids names scores where
    ids: "get_col T ''member_id'' = Some ids"
    and rows: "rows = head k (sort_descending
                 (filter (\<lambda>r. \<not> cell_eq (row_member_id r) target)
                    (map (\<lambda>i. \<lparr>label = i, row_member_id = col_cells ids ! i,
                               row_name = names ! i, similarity_score = scores ! i\<rparr>)
                       [0..<nrows T])))"
    by blast
  define others where "others = filter (\<lambda>r. \<not> cell_eq (row_member_id r) target)
                    (map (\<lambda>i. \<lparr>label = i, row_member_id = col_cells ids ! i,
                               row_name = names ! i, similarity_score = scores ! i\<rparr>)
                       [0..<nrows T])"
  have labels: "map label others = eligible_rows T target"
    unfolding others_def eligible_rows_def using ids
    by (simp add: filter_map comp_def)
  have rows': "rows = take (nat k) (sort_descending others)"
    using rows k by (simp add: others_def head_nonneg)
  have sub: "set rows \<subseteq> set others"
    unfolding rows' sort_descending_def using set_take_subset [of "nat k"] by fastforce
  have p1: "\<forall>r \<in> set rows. \<not> cell_eq (row_member_id r) target \<and> label r \<in> set (eligible_rows T target)"
  proof
    fix r assume "r \<in> set rows"
    with sub have r: "r \<in> set others" by blast
    then have "\<not> cell_eq (row_member_id r) target" by (simp add: others_def)
    moreover from r have "label r \<in> set (map label others)" by simp
    ultimately show "\<not> cell_eq (row_member_id r) target \<and> label r \<in> set (eligible_rows T target)"
      by (simp add: labels)
  qed
  have "distinct (map label others)"
    unfolding labels eligible_rows_def using ids by simp
  then have "distinct (map label (sort_descending others))"
    unfolding sort_descending_def by (simp add: distinct_map)
  then have p2: "distinct (map label rows)"
    unfolding rows' by (simp add: take_map [symmetric] del: take_map)
  have p3: "int (length rows) \<le> k" using k by (simp add: rows')
  have p4: "sorted_wrt (\<lambda>a b. similarity_score b \<le> similarity_score a) rows"
    unfolding rows' by (rule sorted_wrt_take [OF sorted_descending])
  have p5: "length rows = length (eligible_rows T target)
            \<and> set (map label rows) = set (eligible_rows T target)"
    if "int (length (eligible_rows T target)) \<le> k"
  proof -
    have "length others = length (eligible_rows T target)"
      using labels by (metis length_map)
    with that have "length (sort_descending others) \<le> nat k"
      by (simp add: sort_descending_def)
    then have "rows = sort_descending others" by (simp add: rows')
    then show ?thesis
      using labels by (simp add: sort_descending_def flip: labels)
  qed
  from p1 p2 p3 p4 p5 show ?thesis by blast
qed

text \<open>
  The roster ranked for \<open>M1\<close>: with \<open>k = 5\<close> all three other members, best first;
  with \<open>k = 2\<close> the best two.
\<close>

theorem similar_members_ranking_witness:
  "find_similar_members ex_library (Some ex_roster) (CStr (Some ''M1'')) 5 =
     Inr (Similar ex_roster_ranked)
   \<and> wf_frame ex_roster \<and> (0::int) \<le> 5
   \<and> int (length (eligible_rows ex_roster (CStr (Some ''M1'')))) \<le> 5
   \<and> length ex_roster_ranked = 3
   \<and> set (map label ex_roster_ranked) = {1, 2, 3}
   \<and> sorted_wrt (\<lambda>a b. similarity_score b \<le> similarity_score a) ex_roster_ranked
   \<and> find_similar_members ex_library (Some ex_roster) (CStr (Some ''M1'')) 2 =
       Inr (Similar (take 2 ex_roster_ranked))
   \<and> int (length (take 2 ex_roster_ranked)) \<le> 2"
proof -
  have w: "wf_frame ex_roster" by (simp add: wf_frame_def ex_roster_def)
  have e: "eligible_rows ex_roster (CStr (Some ''M1'')) = [1, 2, 3]"
    by (simp add: eligible_rows_def get_col_def ex_roster_def upt_4)
  from similar_members_ranking [OF ex_roster_all w, simplified e] e w ex_roster_all
  have five: "find_similar_members ex_library (Some ex_roster) (CStr (Some ''M1'')) 5 =
     Inr (Similar ex_roster_ranked)
   \<and> wf_frame ex_roster \<and> (0::int) \<le> 5
   \<and> int (length (eligible_rows ex_roster (CStr (Some ''M1'')))) \<le> 5
   \<and> length ex_roster_ranked = 3
   \<and> set (map label ex_roster_ranked) = {1, 2, 3}
   \<and> sorted_wrt (\<lambda>a b. similarity_score b \<le> similarity_score a) ex_roster_ranked"
    by auto
  from similar_members_ranking [OF ex_roster_top2 w]
  have "int (length (take 2 ex_roster_ranked)) \<le> 2" by simp
  with five ex_roster_top2 show ?thesis by blast
qed

text \<open>
  Claim C6 as stated fails on a table without feature columns: the target is present and
  one row is eligible, but the ranker returns the empty frame.
\<close>

theorem similar_members_ranking_counterexample:
  "find_similar_members ex_library (Some ex_no_features) (CStr (Some ''M1'')) 5 = Inr EmptyFrame
   \<and> eligible_rows ex_no_features (CStr (Some ''M1'')) = [1]"
  using ex_no_features_result
  by (simp add: eligible_rows_def get_col_def ex_no_features_def upt_rec)

subsection \<open>What each step reads and writes\<close>

lemma set_col_twice [simp]: "set_col (set_col df k v) k w = set_col df k w"
  by (simp add: set_col_def)

lemma step_writesI:
  assumes "\<And>X Y D. step X = Inr D \<Longrightarrow> nrows Y = nrows X
             \<Longrightarrow> (\<And>c. c \<in> set R \<Longrightarrow> get_col Y c = get_col X c)
             \<Longrightarrow> (D = X \<and> step Y = Inr Y) \<or> (\<exists>v. D = set_col X k v \<and> step Y = Inr (set_col Y k v))"
  shows "step_writes step k R"
  unfolding step_writes_def using assms by blast

lemma days_since_interaction_step_writes:
  "step_writes (days_since_interaction_step now) ''days_since_interaction'' [''last_interaction'']"
proof (rule step_writesI)
  fix X Y D
  assume s: "days_since_interaction_step now X = Inr D" and n: "nrows Y = nrows X"
    and r: "\<And>c. c \<in> set [''last_interaction''] \<Longrightarrow> get_col Y c = get_col X c"
  have li: "get_col Y ''last_interaction'' = get_col X ''last_interaction''" by (rule r) simp
  from s have "\<exists>v. D = set_col X ''days_since_interaction'' v
                 \<and> days_since_interaction_step now Y = Inr (set_col Y ''days_since_interaction'' v)"
    by (auto simp: days_since_interaction_step_def li n broadcast_def
          split: option.splits column.splits)
  then show "(D = X \<and> days_since_interaction_step now Y = Inr Y)
     \<or> (\<exists>v. D = set_col X ''days_since_interaction'' v
            \<and> days_since_interaction_step now Y = Inr (set_col Y ''days_since_interaction'' v))"
    by blast
qed

lemma engagement_score_step_writes:
  "step_writes engagement_score_step ''engagement_score''
     [''attendance_rate'', ''satisfaction_score'', ''days_since_interaction'',
      ''membership_duration_days'']"
proof (rule step_writesI)
  fix X Y D
  assume s: "engagement_score_step X = Inr D" and n: "nrows Y = nrows X"
    and r: "\<And>c. c \<in> set [''attendance_rate'', ''satisfaction_score'', ''days_since_interaction'',
      ''membership_duration_days''] \<Longrightarrow> get_col Y c = get_col X c"
  have a: "attendance_score Y = attendance_score X"
    by (simp add: attendance_score_def r n broadcast_def split: option.splits)
  have b: "satisfaction_score Y = satisfaction_score X"
    by (simp add: satisfaction_score_def r n broadcast_def split: option.splits)
  have c: "recency_score Y = recency_score X"
    by (simp add: recency_score_def lookup_col_def r)
  have d: "loyalty_score Y = loyalty_score X"
    by (simp add: loyalty_score_def lookup_col_def r)
  from s have "\<exists>v. D = set_col X ''engagement_score'' v
                 \<and> engagement_score_step Y = Inr (set_col Y ''engagement_score'' v)"
    by (auto simp: engagement_score_step_def a b c d bind_err_Inr_iff Let_def)
  then show "(D = X \<and> engagement_score_step Y = Inr Y)
     \<or> (\<exists>v. D = set_col X ''engagement_score'' v
            \<and> engagement_score_step Y = Inr (set_col Y ''engagement_score'' v))"
    by blast
qed

lemma category_step_writes:
  assumes "\<And>data. step data =
     bind_err (lookup_col data src) (\<lambda>c.
     bind_err (num_values c) (\<lambda>xs.
       Inr (set_col data k (category_column hi mid lo xs))))"
  shows "step_writes step k [src]"
proof (rule step_writesI)
  fix X Y D
  assume s: "step X = Inr D" and n: "nrows Y = nrows X"
    and r: "\<And>c. c \<in> set [src] \<Longrightarrow> get_col Y c = get_col X c"
  have l: "lookup_col Y src = lookup_col X src" by (simp add: lookup_col_def r)
  from s have "\<exists>v. D = set_col X k v \<and> step Y = Inr (set_col Y k v)"
    by (auto simp: assms l bind_err_Inr_iff)
  then show "(D = X \<and> step Y = Inr Y) \<or> (\<exists>v. D = set_col X k v \<and> step Y = Inr (set_col Y k v))"
    by blast
qed

lemma engagement_level_step_writes:
  "step_writes engagement_level_step ''engagement_level'' [''engagement_score'']"
  by (rule category_step_writes) (simp add: engagement_level_step_def)

lemma effectiveness_category_step_writes:
  "step_writes effectiveness_category_step ''effectiveness_category'' [''effectiveness_score'']"
  by (rule category_step_writes) (simp add: effectiveness_category_step_def)

lemma performance_category_step_writes:
  "step_writes performance_category_step ''performance_category'' [''performance_score'']"
  by (rule category_step_writes) (simp add: performance_category_step_def)

lemma partnership_duration_step_writes:
  "step_writes (partnership_duration_step now) ''partnership_duration''
     [''start_date'', ''end_date'']"
proof (rule step_writesI)
  fix X Y D
  assume s: "partnership_duration_step now X = Inr D" and n: "nrows Y = nrows X"
    and r: "\<And>c. c \<in> set [''start_date'', ''end_date''] \<Longrightarrow> get_col Y c = get_col X c"
  have g: "get_col Y ''start_date'' = get_col X ''start_date''"
    "get_col Y ''end_date'' = get_col X ''end_date''" by (simp_all add: r)
  show "(D = X \<and> partnership_duration_step now Y = Inr Y)
     \<or> (\<exists>v. D = set_col X ''partnership_duration'' v
            \<and> partnership_duration_step now Y = Inr (set_col Y ''partnership_duration'' v))"
    using s
    by (auto simp: partnership_duration_step_def has_col_def g Let_def
          split: if_splits option.splits column.splits)
qed

lemma roi_step_writes:
  "step_writes roi_step ''roi'' [''value_contribution'', ''cost'']"
proof (rule step_writesI)
  fix X Y D
  assume s: "roi_step X = Inr D" and n: "nrows Y = nrows X"
    and r: "\<And>c. c \<in> set [''value_contribution'', ''cost''] \<Longrightarrow> get_col Y c = get_col X c"
  have g: "get_col Y ''value_contribution'' = get_col X ''value_contribution''"
    "get_col Y ''cost'' = get_col X ''cost''" by (simp_all add: r)
  show "(D = X \<and> roi_step Y = Inr Y)
     \<or> (\<exists>v. D = set_col X ''roi'' v \<and> roi_step Y = Inr (set_col Y ''roi'' v))"
    using s
    by (auto simp: roi_step_def has_col_def lookup_col_def g bind_err_Inr_iff
          split: if_splits)
qed

lemma effectiveness_score_step_writes:
  "step_writes effectiveness_score_step ''effectiveness_score''
     [''performance_rating'', ''alignment_score'']"
proof (rule step_writesI)
  fix X Y D
  assume s: "effectiveness_score_step X = Inr D" and n: "nrows Y = nrows X"
    and r: "\<And>c. c \<in> set [''performance_rating'', ''alignment_score'']
              \<Longrightarrow> get_col Y c = get_col X c"
  have g: "get_col Y ''performance_rating'' = get_col X ''performance_rating''"
    "get_col Y ''alignment_score'' = get_col X ''alignment_score''" by (simp_all add: r)
  have "\<exists>v. D = set_col X ''effectiveness_score'' v
          \<and> effectiveness_score_step Y = Inr (set_col Y ''effectiveness_score'' v)"
    using s
    by (auto simp: effectiveness_score_step_def has_col_def lookup_col_def g n broadcast_def
          bind_err_Inr_iff split: if_splits)
  then show "(D = X \<and> effectiveness_score_step Y = Inr Y)
     \<or> (\<exists>v. D = set_col X ''effectiveness_score'' v
            \<and> effectiveness_score_step Y = Inr (set_col Y ''effectiveness_score'' v))"
    by blast
qed

lemma ratio_step_writes: "step_writes (ratio_step den num target) target [den, num]"
proof (rule step_writesI)
  fix X Y D
  assume s: "ratio_step den num target X = Inr D" and n: "nrows Y = nrows X"
    and r: "\<And>c. c \<in> set [den, num] \<Longrightarrow> get_col Y c = get_col X c"
  have g: "get_col Y den = get_col X den" "get_col Y num = get_col X num" by (simp_all add: r)
  show "(D = X \<and> ratio_step den num target Y = Inr Y)
     \<or> (\<exists>v. D = set_col X target v \<and> ratio_step den num target Y = Inr (set_col Y target v))"
    using s
    by (auto simp: ratio_step_def has_col_def lookup_col_def g bind_err_Inr_iff
          split: if_splits)
qed

lemma performance_score_step_writes:
  "step_writes performance_score_step ''performance_score''
     [''enrollment_rate'', ''satisfaction_score'', ''success_metric'', ''budget_utilization'']"
proof (rule step_writesI)
  fix X Y D
  assume s: "performance_score_step X = Inr D" and n: "nrows Y = nrows X"
    and r: "\<And>c. c \<in> set [''enrollment_rate'', ''satisfaction_score'', ''success_metric'',
              ''budget_utilization''] \<Longrightarrow> get_col Y c = get_col X c"
  have m: "performance_metrics Y = performance_metrics X"
    by (simp add: performance_metrics_def metric_mapped_def metric_as_is_def r)
  have b: "broadcast Y = broadcast X" by (simp add: broadcast_def n fun_eq_iff)
  have ss: "sum_series Y = sum_series X" by (simp add: sum_series_def b fun_eq_iff)
  from s obtain ms where ms: "performance_metrics X = Inr ms"
    by (auto simp: performance_score_step_def bind_err_Inr_iff)
  have "\<exists>v. D = set_col X ''performance_score'' v
          \<and> performance_score_step Y = Inr (set_col Y ''performance_score'' v)"
  proof (cases "ms = []")
    case True
    with s ms show ?thesis by (auto simp: performance_score_step_def m b)
  next
    case False
    with s ms show ?thesis
      by (auto simp: performance_score_step_def m b ss bind_err_Inr_iff Let_def)
  qed
  then show "(D = X \<and> performance_score_step Y = Inr Y)
     \<or> (\<exists>v. D = set_col X ''performance_score'' v
            \<and> performance_score_step Y = Inr (set_col Y ''performance_score'' v))"
    by blast
qed

lemma step_writes_frame:
  assumes "step_writes step k R" "step X = Inr D"
  shows "nrows D = nrows X \<and> (\<forall>c. c \<noteq> k \<longrightarrow> get_col D c = get_col X c)"
proof -
  from assms have "D = X \<or> (\<exists>v. D = set_col X k v)"
    unfolding step_writes_def by blast
  then show ?thesis by auto
qed

lemma step_writes_replay:
  assumes w: "step_writes step k R" and s: "step X = Inr X'"
    and n: "nrows D = nrows X"
    and r: "\<forall>c \<in> set R. get_col D c = get_col X c"
    and k: "get_col D k = get_col X' k"
  shows "step D = Inr D"
proof -
  from w s n r have "(X' = X \<and> step D = Inr D)
      \<or> (\<exists>v. X' = set_col X k v \<and> step D = Inr (set_col D k v))"
    unfolding step_writes_def by blast
  then show ?thesis
  proof
    assume "\<exists>v. X' = set_col X k v \<and> step D = Inr (set_col D k v)"
    then obtain v where x: "X' = set_col X k v" and d: "step D = Inr (set_col D k v)" by blast
    from x k have "get_col D k = Some v" by simp
    then have "set_col D k v = D" by (rule set_col_same)
    with d show ?thesis by simp
  qed simp
qed

subsection \<open>Scoring twice\<close>

lemmas partnership_defs =
  calculate_partnership_effectiveness_def partnership_effectiveness_body_def
  partnership_duration_step_def ongoing_duration_def roi_step_def effectiveness_score_step_def
  effectiveness_category_step_def get_col_def has_col_def set_col_def lookup_col_def
  num_values_def bind_err_def broadcast_def fsub_def category_column_def categorize_def
  ns_per_day_def

lemmas program_defs =
  analyze_program_performance_def program_performance_body_def enrollment_rate_step_def
  budget_utilization_step_def ratio_step_def performance_score_step_def performance_metrics_def
  metric_as_is_def metric_mapped_def budget_score_def add_series_def sum_series_def
  performance_category_step_def get_col_def has_col_def set_col_def lookup_col_def
  num_values_def bind_err_def broadcast_def fsub_def category_column_def categorize_def rint_def

lemma ex_partners_result:
  "calculate_partnership_effectiveness (30 * ns_per_day) (Some ex_partners) =
     Inr (Some ex_partners_scored)"
  by (simp add: ex_partners_def ex_partners_scored_def partnership_defs)

lemma ex_programs_result:
  "analyze_program_performance (Some ex_programs) = Inr (Some ex_programs_scored)"
  by (simp add: ex_programs_def ex_programs_scored_def program_defs numeral_2_eq_2)

lemma member_engagement_body_idem:
  assumes "member_engagement_body now X = Inr D"
  shows "member_engagement_body now D = Inr D \<and> nrows D = nrows X"
proof -
  from assms obtain X1 X2 where
    s1: "days_since_interaction_step now X = Inr X1"
    and s2: "engagement_score_step X1 = Inr X2"
    and s3: "engagement_level_step X2 = Inr D"
    by (auto simp: member_engagement_body_def bind_err_Inr_iff)
  note f1 = step_writes_frame [OF days_since_interaction_step_writes s1]
  note f2 = step_writes_frame [OF engagement_score_step_writes s2]
  note f3 = step_writes_frame [OF engagement_level_step_writes s3]
  have r1: "days_since_interaction_step now D = Inr D"
    by (rule step_writes_replay [OF days_since_interaction_step_writes s1])
       (simp_all add: f1 f2 f3)
  have r2: "engagement_score_step D = Inr D"
    by (rule step_writes_replay [OF engagement_score_step_writes s2])
       (simp_all add: f1 f2 f3)
  have r3: "engagement_level_step D = Inr D"
    by (rule step_writes_replay [OF engagement_level_step_writes s3])
       (simp_all add: f1 f2 f3)
  show ?thesis by (simp add: member_engagement_body_def r1 r2 r3 f1 f2 f3)
qed

lemma partnership_effectiveness_body_idem:
  assumes "partnership_effectiveness_body now X = Inr D"
  shows "partnership_effectiveness_body now D = Inr D \<and> nrows D = nrows X"
proof -
  from assms obtain X1 X2 X3 where
    s1: "partnership_duration_step now X = Inr X1"
    and s2: "roi_step X1 = Inr X2"
    and s3: "effectiveness_score_step X2 = Inr X3"
    and s4: "effectiveness_category_step X3 = Inr D"
    by (auto simp: partnership_effectiveness_body_def bind_err_Inr_iff)
  note f1 = step_writes_frame [OF partnership_duration_step_writes s1]
  note f2 = step_writes_frame [OF roi_step_writes s2]
  note f3 = step_writes_frame [OF effectiveness_score_step_writes s3]
  note f4 = step_writes_frame [OF effectiveness_category_step_writes s4]
  have r1: "partnership_duration_step now D = Inr D"
    by (rule step_writes_replay [OF partnership_duration_step_writes s1])
       (simp_all add: f1 f2 f3 f4)
  have r2: "roi_step D = Inr D"
    by (rule step_writes_replay [OF roi_step_writes s2]) (simp_all add: f1 f2 f3 f4)
  have r3: "effectiveness_score_step D = Inr D"
    by (rule step_writes_replay [OF effectiveness_score_step_writes s3])
       (simp_all add: f1 f2 f3 f4)
  have r4: "effectiveness_category_step D = Inr D"
    by (rule step_writes_replay [OF effectiveness_category_step_writes s4])
       (simp_all add: f1 f2 f3 f4)
  show ?thesis by (simp add: partnership_effectiveness_body_def r1 r2 r3 r4 f1 f2 f3 f4)
qed

lemma program_performance_body_idem:
  assumes "program_performance_body X = Inr D"
  shows "program_performance_body D = Inr D \<and> nrows D = nrows X"
proof -
  from assms obtain X1 X2 X3 where
    s1: "enrollment_rate_step X = Inr X1"
    and s2: "budget_utilization_step X1 = Inr X2"
    and s3: "performance_score_step X2 = Inr X3"
    and s4: "performance_category_step X3 = Inr D"
    by (auto simp: program_performance_body_def bind_err_Inr_iff)
  have w1: "step_writes enrollment_rate_step ''enrollment_rate'' [''capacity'', ''current_enrollment'']"
    unfolding enrollment_rate_step_def by (rule ratio_step_writes)
  have w2: "step_writes budget_utilization_step ''budget_utilization'' [''budget'', ''expenses'']"
    unfolding budget_utilization_step_def by (rule ratio_step_writes)
  note f1 = step_writes_frame [OF w1 s1]
  note f2 = step_writes_frame [OF w2 s2]
  note f3 = step_writes_frame [OF performance_score_step_writes s3]
  note f4 = step_writes_frame [OF performance_category_step_writes s4]
  have r1: "enrollment_rate_step D = Inr D"
    by (rule step_writes_replay [OF w1 s1]) (simp_all add: f1 f2 f3 f4)
  have r2: "budget_utilization_step D = Inr D"
    by (rule step_writes_replay [OF w2 s2]) (simp_all add: f1 f2 f3 f4)
  have r3: "performance_score_step D = Inr D"
    by (rule step_writes_replay [OF performance_score_step_writes s3])
       (simp_all add: f1 f2 f3 f4)
  have r4: "performance_category_step D = Inr D"
    by (rule step_writes_replay [OF performance_category_step_writes s4])
       (simp_all add: f1 f2 f3 f4)
  show ?thesis by (simp add: program_performance_body_def r1 r2 r3 r4 f1 f2 f3 f4)
qed

lemma scorer_idem:
  assumes body: "\<And>X D. body X = Inr D \<Longrightarrow> body D = Inr D \<and> nrows D = nrows X"
    and f: "\<And>arg. f arg =
              (case arg of None \<Rightarrow> Inr None
               | Some t \<Rightarrow> if nrows t = 0 then Inr None else map_sum id Some (body t))"
    and r: "f T = Inr R"
  shows "f R = Inr R"
proof (cases R)
  case None
  then show ?thesis by (simp add: f)
next
  case (Some D)
  with r obtain X where x: "T = Some X" "nrows X \<noteq> 0" "body X = Inr D"
    by (cases T; cases "body (the T)") (auto simp: f split: if_splits)
  from body [OF x(3)] x(2) Some show ?thesis by (simp add: f)
qed

text \<open>
  Claim C8. With the clock fixed, a scorer run on its own result returns that result
  again: whatever a scorer returns for \<open>T\<close>, it returns the same for it, so every derived
  column keeps the value of the first run.
\<close>

theorem scorers_idempotent:
  "(calculate_member_engagement now T = Inr R \<longrightarrow> calculate_member_engagement now R = Inr R)
   \<and> (calculate_partnership_effectiveness now T = Inr R
        \<longrightarrow> calculate_partnership_effectiveness now R = Inr R)
   \<and> (analyze_program_performance T = Inr R \<longrightarrow> analyze_program_performance R = Inr R)"
proof (intro conjI impI)
  assume "calculate_member_engagement now T = Inr R"
  then show "calculate_member_engagement now R = Inr R"
    by (rule scorer_idem [where body = "member_engagement_body now", rotated 2])
       (simp_all add: member_engagement_body_idem calculate_member_engagement_def)
next
  assume "calculate_partnership_effectiveness now T = Inr R"
  then show "calculate_partnership_effectiveness now R = Inr R"
    by (rule scorer_idem [where body = "partnership_effectiveness_body now", rotated 2])
       (simp_all add: partnership_effectiveness_body_idem calculate_partnership_effectiveness_def)
next
  assume "analyze_program_performance T = Inr R"
  then show "analyze_program_performance R = Inr R"
    by (rule scorer_idem [where body = program_performance_body, rotated 2])
       (simp_all add: program_performance_body_idem analyze_program_performance_def)
qed

text \<open>The three example tables, scored and scored again.\<close>

theorem scorers_idempotent_witness:
  "calculate_member_engagement (30 * ns_per_day) (Some ex_members) = Inr (Some ex_members_scored)
   \<and> calculate_member_engagement (30 * ns_per_day) (Some ex_members_scored) =
       Inr (Some ex_members_scored)
   \<and> calculate_partnership_effectiveness (30 * ns_per_day) (Some ex_partners) =
       Inr (Some ex_partners_scored)
   \<and> calculate_partnership_effectiveness (30 * ns_per_day) (Some ex_partners_scored) =
       Inr (Some ex_partners_scored)
   \<and> analyze_program_performance (Some ex_programs) = Inr (Some ex_programs_scored)
   \<and> analyze_program_performance (Some ex_programs_scored) = Inr (Some ex_programs_scored)"
  using scorers_idempotent [of "30 * ns_per_day" "Some ex_members" "Some ex_members_scored"]
    scorers_idempotent [of "30 * ns_per_day" "Some ex_partners" "Some ex_partners_scored"]
    scorers_idempotent [of "30 * ns_per_day" "Some ex_programs" "Some ex_programs_scored"]
    ex_members_result ex_partners_result ex_programs_result
  by blast

subsection \<open>The caller's table\<close>

lemma bind_err_Inr [simp]: "bind_err m Inr = m"
  by (cases m) simp_all













subsection \<open>Partnership effectiveness\<close>










subsection \<open>Program performance in floating point\<close>

lemma num_col_okI: "wf_frame T \<Longrightarrow> num_or_absent T c \<Longrightarrow> num_col_ok T c"
  by (auto simp: num_col_ok_def num_or_absent_def split: option.splits column.splits
        dest: wf_get_col_len)

lemma num_col_ok_cases:
  assumes "num_col_ok X c"
  obtains "get_col X c = None" | xs where "get_col X c = Some (NumCol xs)" "length xs = nrows X"
  using assms by (auto simp: num_col_ok_def split: option.splits column.splits)

lemma num_col_ok_agree:
  "get_col Y c = get_col X c \<Longrightarrow> nrows Y = nrows X \<Longrightarrow> num_col_ok Y c = num_col_ok X c"
  by (simp add: num_col_ok_def split: option.splits column.splits)

lemma ratio_step_fl_typed:
  assumes d: "num_col_ok X den" and n: "num_col_ok X num" and t: "num_col_ok X target"
  shows "\<exists>D. ratio_step_fl A den num target X = Inr D \<and> nrows D = nrows X
           \<and> num_col_ok D target
           \<and> (\<forall>c. c \<noteq> target \<longrightarrow> get_col D c = get_col X c)
           \<and> has_col D target = (has_col X target \<or> has_col X den \<and> has_col X num)
           \<and> (if has_col X den \<and> has_col X num
               then \<forall>i < nrows X. num_cell D target i = spec_ratio A X num den i
               else get_col D target = get_col X target)"
  using d
proof (cases rule: num_col_ok_cases)
  case 1
  with t show ?thesis by (simp add: ratio_step_fl_def has_col_def)
next
  case (2 ds)
  note dd = 2
  from n show ?thesis
  proof (cases rule: num_col_ok_cases)
    case 1
    with t show ?thesis by (simp add: ratio_step_fl_def has_col_def)
  next
    case (2 ns)
    with dd show ?thesis
      by (simp add: ratio_step_fl_def has_col_def lookup_col_def num_values_def num_col_ok_def
            num_cell_def spec_ratio_def)
  qed
qed

lemma metrics_ok_append:
  "metrics_ok n ms1 sm1 \<Longrightarrow> metrics_ok n ms2 sm2 \<Longrightarrow> metrics_ok n (ms1 @ ms2) (\<lambda>i. sm1 i @ sm2 i)"
  by (simp add: metrics_ok_def)

lemma metric_as_is_ok:
  assumes "num_col_ok X name"
  shows "metrics_ok (nrows X) (metric_as_is X name w) (spec_metric X name (\<lambda>x. x) w)"
  using assms
  by (cases rule: num_col_ok_cases)
     (simp_all add: metrics_ok_def metric_as_is_def spec_metric_def has_col_def num_cell_def
        col_values_def)

lemma metric_mapped_ok:
  assumes "num_col_ok X name"
  shows "\<exists>ms. metric_mapped X name f w = Inr ms \<and> metrics_ok (nrows X) ms (spec_metric X name f w)"
  using assms
  by (cases rule: num_col_ok_cases)
     (simp_all add: metrics_ok_def metric_mapped_def spec_metric_def has_col_def num_cell_def
        col_values_def num_values_def)

lemma performance_metrics_fl_ok:
  assumes "num_col_ok X ''enrollment_rate''" "num_col_ok X ''satisfaction_score''"
    "num_col_ok X ''success_metric''" "num_col_ok X ''budget_utilization''"
  shows "\<exists>ms. performance_metrics_fl A X = Inr ms \<and> metrics_ok (nrows X) ms (spec_metrics A X)"
proof -
  from metric_mapped_ok [OF assms(2)] obtain sat where
    sat: "metric_mapped X ''satisfaction_score'' (\<lambda>x. fl_div A x (fl_lit A 10)) (4 / 10) = Inr sat"
    and sat_ok: "metrics_ok (nrows X) sat
                   (spec_metric X ''satisfaction_score'' (\<lambda>x. fl_div A x (fl_lit A 10)) (4 / 10))"
    by blast
  from metric_mapped_ok [OF assms(4)] obtain bud where
    bud: "metric_mapped X ''budget_utilization'' (budget_score_fl A) (2 / 10) = Inr bud"
    and bud_ok: "metrics_ok (nrows X) bud
                   (spec_metric X ''budget_utilization'' (budget_score_fl A) (2 / 10))"
    by blast
  have b: "budget_score_fl A = (\<lambda>b. fl_sub A (fl_lit A 1) (fabs (fl_sub A b (fl_lit A 1))))"
    by (simp add: budget_score_fl_def fun_eq_iff)
  have "metrics_ok (nrows X)
          (metric_as_is X ''enrollment_rate'' (3 / 10) @ sat
           @ metric_as_is X ''success_metric'' (3 / 10) @ bud)
          (\<lambda>i. spec_metric X ''enrollment_rate'' (\<lambda>x. x) (3 / 10) i
             @ spec_metric X ''satisfaction_score'' (\<lambda>x. fl_div A x (fl_lit A 10)) (4 / 10) i
             @ spec_metric X ''success_metric'' (\<lambda>x. x) (3 / 10) i
             @ spec_metric X ''budget_utilization'' (budget_score_fl A) (2 / 10) i)"
    by (intro metrics_ok_append metric_as_is_ok assms sat_ok bud_ok)
  then have "metrics_ok (nrows X)
          (metric_as_is X ''enrollment_rate'' (3 / 10) @ sat
           @ metric_as_is X ''success_metric'' (3 / 10) @ bud) (spec_metrics A X)"
    by (simp add: spec_metrics_def [abs_def] b)
  then show ?thesis
    unfolding performance_metrics_fl_def sat bud bind_err_simps by blast
qed

lemma weighted_metrics_fl_ok:
  assumes "list_all (\<lambda>(c, w). \<exists>xs. c = NumCol xs \<and> length xs = n) ms"
  shows "weighted_metrics_fl A tw ms =
           Inr (map (\<lambda>(c, w). map (\<lambda>x. fl_mul A x (fl_div A (fl_lit A w) tw)) (col_values c)) ms)"
  using assms by (induction ms) (auto simp: num_values_def col_values_def)

lemma foldl_add_series_fl:
  assumes "length acc = n" "list_all (\<lambda>xs. length xs = n) xss"
  shows "length (foldl (add_series_fl A) acc xss) = n
         \<and> (\<forall>i < n. foldl (add_series_fl A) acc xss ! i =
                      foldl (fl_add A) (acc ! i) (map (\<lambda>xs. xs ! i) xss))"
  using assms
proof (induction xss arbitrary: acc)
  case Nil
  then show ?case by simp
next
  case (Cons xs xss)
  have l: "length (add_series_fl A acc xs) = n" using Cons.prems by (simp add: add_series_fl_def)
  from Cons.IH [OF l] Cons.prems show ?case by (simp add: add_series_fl_def)
qed

lemma sum_series_fl_rows:
  assumes "nrows X = n" "list_all (\<lambda>xs. length xs = n) xss"
  shows "map (\<lambda>x. fl_mul A x (fl_lit A 100)) (sum_series_fl A X xss) =
           map (\<lambda>i. fl_mul A (foldl (fl_add A) (fl_lit A 0) (map (\<lambda>xs. xs ! i) xss))
                      (fl_lit A 100)) [0..<n]"
proof -
  have "length (replicate (nrows X) (fl_lit A 0)) = n" using assms(1) by simp
  from foldl_add_series_fl [OF this assms(2)] assms(1)
  show ?thesis
    by (auto intro!: nth_equalityI simp: sum_series_fl_def)
qed

lemma performance_score_step_fl_rows:
  assumes "num_col_ok X ''enrollment_rate''" "num_col_ok X ''satisfaction_score''"
    "num_col_ok X ''success_metric''" "num_col_ok X ''budget_utilization''"
  shows "performance_score_step_fl A X =
           Inr (set_col X ''performance_score''
                  (NumCol (map (\<lambda>i. spec_performance_score A (spec_metrics A X i))
                             [0..<nrows X])))"
proof -
  let ?n = "nrows X"
  from performance_metrics_fl_ok [OF assms] obtain ms where
    pm: "performance_metrics_fl A X = Inr ms" and ok: "metrics_ok ?n ms (spec_metrics A X)"
    by blast
  from ok have all: "list_all (\<lambda>(c, w). \<exists>xs. c = NumCol xs \<and> length xs = ?n) ms"
    and sm: "\<And>i. i < ?n \<Longrightarrow> spec_metrics A X i = map (\<lambda>(c, w). (w, col_values c ! i)) ms"
    by (simp_all add: metrics_ok_def)
  show ?thesis
  proof (cases "ms = []")
    case True
    have "broadcast X 50 = map (\<lambda>i. spec_performance_score A (spec_metrics A X i)) [0..<?n]"
      using True sm by (auto intro!: nth_equalityI simp: broadcast_def spec_performance_score_def)
    with True pm show ?thesis by (simp add: performance_score_step_fl_def)
  next
    case False
    let ?tw = "total_weight_fl A ms"
    let ?wms = "map (\<lambda>(c, w). map (\<lambda>x. fl_mul A x (fl_div A (fl_lit A w) ?tw)) (col_values c)) ms"
    have wm: "weighted_metrics_fl A ?tw ms = Inr ?wms" by (rule weighted_metrics_fl_ok [OF all])
    have lens: "list_all (\<lambda>xs. length xs = ?n) ?wms"
      using all by (auto simp: list_all_iff col_values_def)
    have row: "fl_mul A (foldl (fl_add A) (fl_lit A 0) (map (\<lambda>xs. xs ! i) ?wms)) (fl_lit A 100) =
                 spec_performance_score A (spec_metrics A X i)" if i: "i < ?n" for i
    proof -
      have tw: "spec_total_weight A (spec_metrics A X i) = ?tw"
        by (simp add: spec_total_weight_def total_weight_fl_def sm [OF i] comp_def
              case_prod_unfold)
      have h: "map (\<lambda>xs. xs ! i) ?wms =
              map (\<lambda>(w, m). fl_mul A m (fl_div A (fl_lit A w) ?tw)) (spec_metrics A X i)"
        using all i by (auto simp: sm [OF i] list_all_iff col_values_def)
      have ne: "spec_metrics A X i \<noteq> []" using False by (simp add: sm [OF i])
      show ?thesis
        unfolding spec_performance_score_def spec_weighted_average_def tw h
        using ne by (simp only: if_False)
    qed
    have "map (\<lambda>x. fl_mul A x (fl_lit A 100)) (sum_series_fl A X ?wms) =
            map (\<lambda>i. spec_performance_score A (spec_metrics A X i)) [0..<?n]"
      unfolding sum_series_fl_rows [OF refl lens] using row by simp
    with False pm wm show ?thesis by (simp add: performance_score_step_fl_def Let_def)
  qed
qed

lemma spec_metrics_agree:
  assumes "get_col Y ''enrollment_rate'' = get_col X ''enrollment_rate''"
    "get_col Y ''satisfaction_score'' = get_col X ''satisfaction_score''"
    "get_col Y ''success_metric'' = get_col X ''success_metric''"
    "get_col Y ''budget_utilization'' = get_col X ''budget_utilization''"
  shows "spec_metrics A Y i = spec_metrics A X i"
  by (simp add: spec_metrics_def spec_metric_def has_col_def num_cell_def assms)

lemma spec_ratio_agree:
  assumes "get_col Y num = get_col X num" "get_col Y den = get_col X den"
  shows "spec_ratio A Y num den i = spec_ratio A X num den i"
  by (simp add: spec_ratio_def num_cell_def assms)

lemma num_cell_agree:
  "get_col Y c = get_col X c \<Longrightarrow> num_cell Y c i = num_cell X c i"
  by (simp add: num_cell_def)

lemmas program_fl_defs =
  analyze_program_performance_fl_def program_performance_body_fl_def enrollment_rate_step_fl_def
  budget_utilization_step_fl_def ratio_step_fl_def performance_score_step_fl_def
  performance_metrics_fl_def metric_as_is_def metric_mapped_def budget_score_fl_def
  add_series_fl_def sum_series_fl_def total_weight_fl_def performance_category_step_def
  get_col_def has_col_def set_col_def lookup_col_def num_values_def bind_err_def broadcast_def
  fsub_def category_column_def categorize_def

lemma ex_programs_binary64:
  "analyze_program_performance_fl binary64 (Some ex_programs) = Inr (Some ex_programs_scored64)"
  by (simp add: ex_programs_def ex_programs_scored64_def program_fl_defs replicate_2 b64_eval)

lemma ex_small_program_binary64:
  "analyze_program_performance_fl binary64 (Some ex_small_program) =
     Inr (Some ex_small_program_scored)"
  by (simp add: ex_small_program_def ex_small_program_scored_def program_fl_defs b64_eval)

lemma ex_bare_program_binary64:
  "analyze_program_performance_fl binary64 (Some ex_bare_program) =
     Inr (Some ex_bare_program_scored)"
  by (simp add: ex_bare_program_def ex_bare_program_scored_def program_fl_defs)

text \<open>
  Claim C5. On every program table with rows the analyzer succeeds, in every arithmetic
  \<open>A\<close>, binary64 among them. The enrollment rate and the budget utilization are the
  ratios of their source columns, rounded to two decimals, when both source columns are
  there; otherwise the table's own column of that name, if any, is kept. The performance
  score of a row is the weighted average of the sub-metrics whose columns the scored
  table has (enrollment rate 0.3, satisfaction over 10 with 0.4, success metric 0.3,
  budget closeness \<open>1 - |b - 1|\<close> with 0.2): each metric is multiplied by its weight
  divided by the total of the weights that are there, the products are added up from 0
  in this order, and the sum is scaled by 100. Without any sub-metric the score is 50.
\<close>

theorem program_performance_score:
  assumes "program_table T"
  shows "\<exists>D ps. analyze_program_performance_fl A (Some T) = Inr (Some D)
           \<and> get_col D ''performance_score'' = Some (NumCol ps) \<and> length ps = nrows T
           \<and> has_col D ''enrollment_rate'' =
               (has_col T ''enrollment_rate''
                \<or> has_col T ''capacity'' \<and> has_col T ''current_enrollment'')
           \<and> has_col D ''budget_utilization'' =
               (has_col T ''budget_utilization'' \<or> has_col T ''budget'' \<and> has_col T ''expenses'')
           \<and> get_col D ''satisfaction_score'' = get_col T ''satisfaction_score''
           \<and> get_col D ''success_metric'' = get_col T ''success_metric''
           \<and> (if has_col T ''capacity'' \<and> has_col T ''current_enrollment''
               then \<forall>i < nrows T. num_cell D ''enrollment_rate'' i =
                      spec_ratio A T ''current_enrollment'' ''capacity'' i
               else get_col D ''enrollment_rate'' = get_col T ''enrollment_rate'')
           \<and> (if has_col T ''budget'' \<and> has_col T ''expenses''
               then \<forall>i < nrows T. num_cell D ''budget_utilization'' i =
                      spec_ratio A T ''expenses'' ''budget'' i
               else get_col D ''budget_utilization'' = get_col T ''budget_utilization'')
           \<and> (\<forall>i < nrows T.
                 ps ! i = spec_performance_score A (spec_metrics A D i)
                 \<and> (spec_metrics A D i = [] \<longrightarrow> ps ! i = Fin 50))"
proof -
  let ?n = "nrows T"
  from assms have wf: "wf_frame T" and pos: "0 < ?n"
    and ty: "num_or_absent T ''capacity''" "num_or_absent T ''current_enrollment''"
      "num_or_absent T ''budget''" "num_or_absent T ''expenses''"
      "num_or_absent T ''satisfaction_score''" "num_or_absent T ''success_metric''"
      "num_or_absent T ''enrollment_rate''" "num_or_absent T ''budget_utilization''"
    by (simp_all add: program_table_def)
  note ok = ty [THEN num_col_okI [OF wf]]
  from ratio_step_fl_typed [OF ok(1) ok(2) ok(7), of A] obtain X1 where
    s1: "enrollment_rate_step_fl A T = Inr X1" and n1: "nrows X1 = ?n"
    and er1: "num_col_ok X1 ''enrollment_rate''"
    and f1: "\<forall>c. c \<noteq> ''enrollment_rate'' \<longrightarrow> get_col X1 c = get_col T c"
    and h1: "has_col X1 ''enrollment_rate'' =
               (has_col T ''enrollment_rate''
                \<or> has_col T ''capacity'' \<and> has_col T ''current_enrollment'')"
    and r1: "if has_col T ''capacity'' \<and> has_col T ''current_enrollment''
             then \<forall>i < ?n. num_cell X1 ''enrollment_rate'' i =
                    spec_ratio A T ''current_enrollment'' ''capacity'' i
             else get_col X1 ''enrollment_rate'' = get_col T ''enrollment_rate''"
    unfolding enrollment_rate_step_fl_def by blast
  have ok1: "num_col_ok X1 ''budget''" "num_col_ok X1 ''expenses''"
    "num_col_ok X1 ''budget_utilization''"
    using ok(3,4,8) by (simp_all add: num_col_ok_agree [of X1 _ T] f1 n1)
  from ratio_step_fl_typed [OF ok1, of A, unfolded n1] obtain X2 where
    s2: "budget_utilization_step_fl A X1 = Inr X2" and n2: "nrows X2 = ?n"
    and bu2: "num_col_ok X2 ''budget_utilization''"
    and f2: "\<forall>c. c \<noteq> ''budget_utilization'' \<longrightarrow> get_col X2 c = get_col X1 c"
    and h2: "has_col X2 ''budget_utilization'' =
               (has_col X1 ''budget_utilization''
                \<or> has_col X1 ''budget'' \<and> has_col X1 ''expenses'')"
    and r2: "if has_col X1 ''budget'' \<and> has_col X1 ''expenses''
             then \<forall>i < ?n. num_cell X2 ''budget_utilization'' i =
                    spec_ratio A X1 ''expenses'' ''budget'' i
             else get_col X2 ''budget_utilization'' = get_col X1 ''budget_utilization''"
    unfolding budget_utilization_step_fl_def by blast
  have ok2: "num_col_ok X2 ''enrollment_rate''" "num_col_ok X2 ''satisfaction_score''"
    "num_col_ok X2 ''success_metric''"
    using er1 ok(5,6)
    by (simp_all add: num_col_ok_agree [of X2 _ X1] num_col_ok_agree [of X1 _ T] f1 f2 n1 n2)
  define ps where "ps = map (\<lambda>i. spec_performance_score A (spec_metrics A X2 i)) [0..<?n]"
  define X3 where "X3 = set_col X2 ''performance_score'' (NumCol ps)"
  have s3: "performance_score_step_fl A X2 = Inr X3"
    unfolding X3_def ps_def n2 [symmetric]
    by (rule performance_score_step_fl_rows [OF ok2 bu2])
  define D where "D = set_col X3 ''performance_category'' (category_column 80 60 40 ps)"
  have s4: "performance_category_step X3 = Inr D"
    by (simp add: performance_category_step_def lookup_col_def num_values_def X3_def D_def)
  have run: "analyze_program_performance_fl A (Some T) = Inr (Some D)"
    using pos by (simp add: analyze_program_performance_fl_def program_performance_body_fl_def
        s1 s2 s3 s4)
  have col: "get_col D ''performance_score'' = Some (NumCol ps)"
    by (simp add: D_def X3_def)
  have len: "length ps = ?n" by (simp add: ps_def)
  have he: "has_col D ''enrollment_rate'' =
               (has_col T ''enrollment_rate''
                \<or> has_col T ''capacity'' \<and> has_col T ''current_enrollment'')"
    using h1 by (simp add: D_def X3_def has_col_def f2)
  have hb: "has_col D ''budget_utilization'' =
               (has_col T ''budget_utilization'' \<or> has_col T ''budget'' \<and> has_col T ''expenses'')"
    using h2 by (simp add: D_def X3_def has_col_def f1)
  have gs: "get_col D ''satisfaction_score'' = get_col T ''satisfaction_score''"
    "get_col D ''success_metric'' = get_col T ''success_metric''"
    by (simp_all add: D_def X3_def f1 f2)
  have ge: "get_col D ''enrollment_rate'' = get_col X1 ''enrollment_rate''"
    and gb: "get_col D ''budget_utilization'' = get_col X2 ''budget_utilization''"
    by (simp_all add: D_def X3_def f2)
  have re: "if has_col T ''capacity'' \<and> has_col T ''current_enrollment''
            then \<forall>i < ?n. num_cell D ''enrollment_rate'' i =
                   spec_ratio A T ''current_enrollment'' ''capacity'' i
            else get_col D ''enrollment_rate'' = get_col T ''enrollment_rate''"
    using r1 by (simp add: num_cell_agree [OF ge] ge)
  have hx: "has_col X1 ''budget'' = has_col T ''budget''"
    "has_col X1 ''expenses'' = has_col T ''expenses''"
    by (simp_all add: has_col_def f1)
  have sx: "spec_ratio A X1 ''expenses'' ''budget'' i = spec_ratio A T ''expenses'' ''budget'' i"
    for i by (rule spec_ratio_agree) (simp_all add: f1)
  have rb: "if has_col T ''budget'' \<and> has_col T ''expenses''
            then \<forall>i < ?n. num_cell D ''budget_utilization'' i =
                   spec_ratio A T ''expenses'' ''budget'' i
            else get_col D ''budget_utilization'' = get_col T ''budget_utilization''"
    using r2 by (simp add: num_cell_agree [OF gb] gb hx sx f1)
  have sm: "spec_metrics A D i = spec_metrics A X2 i" for i
    by (rule spec_metrics_agree) (simp_all add: D_def X3_def)
  have rows: "ps ! i = spec_performance_score A (spec_metrics A D i)" if "i < ?n" for i
    using that by (simp add: ps_def sm)
  have none: "ps ! i = Fin 50" if "i < ?n" "spec_metrics A D i = []" for i
    using that rows [of i] by (simp add: spec_performance_score_def)
  from run col len he hb gs re rb rows none
  show ?thesis by blast
qed

text \<open>
  In binary64: a program with 23 of 40 places taken has the enrollment rate 0.57 (the
  quotient 0.575 times 100 is 57.49999999999999) and the score 56.99999999999999. The
  first row of \<open>ex_programs\<close> has enrollment, satisfaction and budget, a total weight of
  0.8999999999999999 and the score 88.8888888888889. A program with none of the metrics
  scores 50.
\<close>

theorem program_performance_score_witness:
  "program_table ex_small_program
   \<and> analyze_program_performance_fl binary64 (Some ex_small_program) =
       Inr (Some ex_small_program_scored)
   \<and> spec_ratio binary64 ex_small_program ''current_enrollment'' ''capacity'' 0 =
       Fin (5134103575202365 / 9007199254740992)
   \<and> spec_metrics binary64 ex_small_program_scored 0 =
       [(3 / 10, Fin (5134103575202365 / 9007199254740992))]
   \<and> spec_performance_score binary64 (spec_metrics binary64 ex_small_program_scored 0) =
       Fin (8022036836253695 / 140737488355328)
   \<and> program_table ex_programs
   \<and> analyze_program_performance_fl binary64 (Some ex_programs) = Inr (Some ex_programs_scored64)
   \<and> spec_performance_score binary64 (spec_metrics binary64 ex_programs_scored64 0) =
       Fin (6254999482459023 / 70368744177664)
   \<and> program_table ex_bare_program
   \<and> analyze_program_performance_fl binary64 (Some ex_bare_program) =
       Inr (Some ex_bare_program_scored)
   \<and> spec_metrics binary64 ex_bare_program_scored 0 = []
   \<and> get_col ex_bare_program_scored ''performance_score'' = Some (NumCol [Fin 50])"
proof -
  have t: "program_table ex_small_program"
    by (simp add: program_table_def wf_frame_def num_or_absent_def get_col_def
          ex_small_program_def)
  have v: "program_table ex_programs"
    by (simp add: program_table_def wf_frame_def num_or_absent_def get_col_def ex_programs_def)
  have u: "program_table ex_bare_program"
    by (simp add: program_table_def wf_frame_def num_or_absent_def get_col_def
          ex_bare_program_def)
  have hs: "has_col ex_small_program ''capacity'' \<and> has_col ex_small_program ''current_enrollment''"
    by (simp add: has_col_def get_col_def ex_small_program_def)
  have cs: "get_col ex_small_program_scored ''performance_score'' =
             Some (NumCol [Fin (8022036836253695 / 140737488355328)])"
    "num_cell ex_small_program_scored ''enrollment_rate'' 0 =
       Fin (5134103575202365 / 9007199254740992)"
    by (simp_all add: get_col_def num_cell_def ex_small_program_scored_def ex_small_program_def)
  have cp: "get_col ex_programs_scored64 ''performance_score'' =
             Some (NumCol [Fin (6254999482459023 / 70368744177664),
                           Fin (3909374676536889 / 70368744177664)])"
    by (simp add: get_col_def ex_programs_scored64_def ex_programs_def)
  have m: "spec_metrics binary64 ex_small_program_scored 0 =
             [(3 / 10, Fin (5134103575202365 / 9007199254740992))]"
    by (simp add: spec_metrics_def spec_metric_def has_col_def num_cell_def get_col_def
          ex_small_program_scored_def ex_small_program_def)
  have e: "spec_metrics binary64 ex_bare_program_scored 0 = []"
    by (simp add: spec_metrics_def spec_metric_def has_col_def get_col_def
          ex_bare_program_scored_def)
  have b: "get_col ex_bare_program_scored ''performance_score'' = Some (NumCol [Fin 50])"
    by (simp add: get_col_def ex_bare_program_scored_def)
  from program_performance_score [OF t, of binary64] hs obtain D ps where
    d: "analyze_program_performance_fl binary64 (Some ex_small_program) = Inr (Some D)"
    and g: "get_col D ''performance_score'' = Some (NumCol ps)"
    and q: "\<forall>i < nrows ex_small_program. num_cell D ''enrollment_rate'' i =
              spec_ratio binary64 ex_small_program ''current_enrollment'' ''capacity'' i"
    and r: "\<forall>i < nrows ex_small_program.
              ps ! i = spec_performance_score binary64 (spec_metrics binary64 D i)"
    by auto
  from d ex_small_program_binary64 have D: "D = ex_small_program_scored" by simp
  with g cs have p: "ps = [Fin (8022036836253695 / 140737488355328)]" by simp
  have pos: "(0::nat) < nrows ex_small_program" by (simp add: ex_small_program_def)
  with r have "ps ! 0 = spec_performance_score binary64 (spec_metrics binary64 D 0)" by blast
  with p D have s1: "spec_performance_score binary64 (spec_metrics binary64 ex_small_program_scored 0) =
       Fin (8022036836253695 / 140737488355328)" by simp
  from q pos have "num_cell D ''enrollment_rate'' 0 =
      spec_ratio binary64 ex_small_program ''current_enrollment'' ''capacity'' 0" by blast
  with D cs have s2: "spec_ratio binary64 ex_small_program ''current_enrollment'' ''capacity'' 0 =
       Fin (5134103575202365 / 9007199254740992)" by simp
  from program_performance_score [OF v, of binary64] obtain D' ps' where
    d': "analyze_program_performance_fl binary64 (Some ex_programs) = Inr (Some D')"
    and g': "get_col D' ''performance_score'' = Some (NumCol ps')"
    and r': "\<forall>i < nrows ex_programs.
              ps' ! i = spec_performance_score binary64 (spec_metrics binary64 D' i)"
    by blast
  from d' ex_programs_binary64 have D': "D' = ex_programs_scored64" by simp
  with g' cp have p': "ps' = [Fin (6254999482459023 / 70368744177664),
                           Fin (3909374676536889 / 70368744177664)]" by simp
  have "(0::nat) < nrows ex_programs" by (simp add: ex_programs_def)
  with r' have "ps' ! 0 = spec_performance_score binary64 (spec_metrics binary64 D' 0)" by blast
  with p' D' have s3: "spec_performance_score binary64 (spec_metrics binary64 ex_programs_scored64 0) =
       Fin (6254999482459023 / 70368744177664)" by simp
  from t v u m e b s1 s2 s3 ex_small_program_binary64 ex_programs_binary64
    ex_bare_program_binary64
  show ?thesis by blast
qed

text \<open>Over the exact arithmetic the analyzer is the one of the first sections.\<close>

lemma total_weight_exact: "total_weight_fl exact_arith ms = Fin (sum_list (map snd ms))"
proof -
  have "foldl fadd (Fin a) (map (\<lambda>(c, w). Fin w) ms) = Fin (a + sum_list (map snd ms))" for a
    by (induction ms arbitrary: a) (auto simp: add.assoc)
  from this [of 0] show ?thesis by (simp add: total_weight_fl_def)
qed

lemma weighted_metrics_exact:
  "tw \<noteq> 0 \<Longrightarrow> weighted_metrics_fl exact_arith (Fin tw) ms = weighted_metrics tw ms"
  by (induction ms) auto

lemma sum_list_positive:
  fixes xs :: "rat list"
  assumes "\<forall>v \<in> set xs. 0 < v" "xs \<noteq> []"
  shows "0 < sum_list xs"
proof -
  from assms(2) obtain a ys where xs: "xs = a # ys" by (cases xs) auto
  with assms(1) have "0 < a" "\<forall>v \<in> set ys. 0 \<le> v" by (auto intro: less_imp_le)
  then have "0 < a + sum_list ys" by (intro add_pos_nonneg sum_list_nonneg) auto
  then show ?thesis by (simp add: xs)
qed

lemma metric_weights_positive:
  assumes "performance_metrics X = Inr ms" "ms \<noteq> []"
  shows "0 < sum_list (map snd ms)"
proof -
  have a: "\<forall>(c, v) \<in> set (metric_as_is X name w). v = w" for name w
    by (simp add: metric_as_is_def split: option.splits)
  have m: "metric_mapped X name f w = Inr l \<Longrightarrow> \<forall>(c, v) \<in> set l. v = w" for name f w l
    by (auto simp: metric_mapped_def bind_err_def split: option.splits sum.splits)
  from assms(1) obtain sat bud where
    s: "metric_mapped X ''satisfaction_score'' (\<lambda>x. fdiv x (Fin 10)) (4 / 10) = Inr sat"
    and b: "metric_mapped X ''budget_utilization'' budget_score (2 / 10) = Inr bud"
    and ms: "ms = metric_as_is X ''enrollment_rate'' (3 / 10) @ sat
                  @ metric_as_is X ''success_metric'' (3 / 10) @ bud"
    by (auto simp: performance_metrics_def bind_err_def split: sum.splits)
  have "\<forall>(c, v) \<in> set ms. 0 < v"
    using a [of "''enrollment_rate''" "3 / 10"] a [of "''success_metric''" "3 / 10"]
      m [OF s] m [OF b]
    unfolding ms by auto
  then have "\<forall>v \<in> set (map snd ms). 0 < v" by auto
  then show ?thesis using assms(2) by (intro sum_list_positive) simp_all
qed

lemma performance_score_step_exact:
  "performance_score_step_fl exact_arith X = performance_score_step X"
proof -
  have b: "budget_score_fl exact_arith = budget_score"
    by (simp add: fun_eq_iff budget_score_fl_def budget_score_def)
  have pm: "performance_metrics_fl exact_arith X = performance_metrics X"
    by (simp add: performance_metrics_fl_def performance_metrics_def b)
  have a: "add_series_fl exact_arith = add_series"
    by (simp add: fun_eq_iff add_series_fl_def add_series_def)
  have ss: "sum_series_fl exact_arith = sum_series"
    by (simp add: fun_eq_iff sum_series_fl_def sum_series_def broadcast_def a)
  show ?thesis
  proof (cases "performance_metrics X")
    case (Inl e)
    then show ?thesis by (simp add: performance_score_step_fl_def performance_score_step_def pm)
  next
    case (Inr ms)
    show ?thesis
    proof (cases "ms = []")
      case True
      with Inr show ?thesis
        by (simp add: performance_score_step_fl_def performance_score_step_def pm)
    next
      case False
      from metric_weights_positive [OF Inr False] have "sum_list (map snd ms) \<noteq> 0" by simp
      from weighted_metrics_exact [OF this, of ms] Inr False show ?thesis
        by (simp add: performance_score_step_fl_def performance_score_step_def
              total_weight_exact Let_def pm ss)
    qed
  qed
qed

lemma program_performance_exact:
  "analyze_program_performance_fl exact_arith pd = analyze_program_performance pd"
proof -
  have r: "ratio_step_fl exact_arith = ratio_step"
    by (simp add: fun_eq_iff ratio_step_fl_def ratio_step_def)
  have "program_performance_body_fl exact_arith = program_performance_body"
    by (intro ext)
       (simp add: program_performance_body_fl_def program_performance_body_def
          enrollment_rate_step_fl_def enrollment_rate_step_def budget_utilization_step_fl_def
          budget_utilization_step_def performance_score_step_exact r)
  then show ?thesis
    by (simp add: analyze_program_performance_fl_def analyze_program_performance_def
          split: option.splits)
qed

end
